theory Spec2Isabelle
  imports Main
begin

section \<open>Values of the JavaScript runtime\<close>

text \<open>
  The service (\<^verbatim>\<open>src/services/dropboxService.js\<close>) handles JSON values that arrive from
  the HTTP layer and from the remote store. A JSON value is modelled by \<open>json\<close>; a
  JavaScript value that may also be \<^verbatim>\<open>undefined\<close> is a \<open>json option\<close> with \<open>None\<close> for
  \<^verbatim>\<open>undefined\<close>. Numbers are integers that a double holds exactly: fractional numbers,
  the rounding of doubles and their infinities are outside the model.
\<close>

datatype json =
    JNull
  | JBool bool
  | JNum int
  | JStr string
  | JArr "json list"
  | JObj "(string \<times> json) list"

type_synonym jsval = "json option"

text \<open>
  A thrown value. The service only ever reads \<^verbatim>\<open>error.message\<close> of what it catches and
  throws \<^verbatim>\<open>new Error(...)\<close> itself; the constructors keep apart where a value was thrown.
\<close>

datatype error =
    Error string
  | TypeError string
  | RangeError string
  | SyntaxError string
  | AxiosError string

fun error_message :: "error \<Rightarrow> string" where
  "error_message (Error m) = m"
| "error_message (TypeError m) = m"
| "error_message (RangeError m) = m"
| "error_message (SyntaxError m) = m"
| "error_message (AxiosError m) = m"

text \<open>
  A \<^verbatim>\<open>Date\<close> object holds a time value in milliseconds or \<^verbatim>\<open>NaN\<close> (an invalid date).
  \<^verbatim>\<open>new Date(t)\<close> clips: a time value beyond 8.64e15 ms in magnitude gives an invalid
  date, and so does \<^verbatim>\<open>NaN\<close> (here \<open>None\<close>).
\<close>

datatype date = Date int | InvalidDate

definition new_Date :: "int option \<Rightarrow> date" where
  "new_Date t =
     (case t of
        None \<Rightarrow> InvalidDate
      | Some ms \<Rightarrow> if \<bar>ms\<bar> \<le> 8640000000000000 then Date ms else InvalidDate)"

text \<open>Truthiness of a value that is a string or \<^verbatim>\<open>null\<close>/\<^verbatim>\<open>undefined\<close>: the empty string is falsy.\<close>

definition truthy :: "string option \<Rightarrow> bool" where
  "truthy s = (case s of None \<Rightarrow> False | Some t \<Rightarrow> t \<noteq> [])"

section \<open>Strings and property access\<close>

text \<open>Strings are ASCII texts; a character outside ASCII is not modelled.\<close>

definition lower_char :: "char \<Rightarrow> char" where
  "lower_char c =
     (case map_of (zip ''ABCDEFGHIJKLMNOPQRSTUVWXYZ'' ''abcdefghijklmnopqrstuvwxyz'') c of
        Some d \<Rightarrow> d
      | None \<Rightarrow> c)"

definition lower :: "string \<Rightarrow> string" where
  "lower s = map lower_char s"

definition alnum :: "char \<Rightarrow> bool" where
  "alnum c =
     (let n = (of_char c :: nat)
      in (97 \<le> n \<and> n \<le> 122) \<or> (65 \<le> n \<and> n \<le> 90) \<or> (48 \<le> n \<and> n \<le> 57))"

text \<open>\<^verbatim>\<open>s.endsWith(suf)\<close>.\<close>

definition endsWith :: "string \<Rightarrow> string \<Rightarrow> bool" where
  "endsWith s suf = (length suf \<le> length s \<and> drop (length s - length suf) s = suf)"

text \<open>\<^verbatim>\<open>s.replace(pat, rep)\<close> with a string pattern: the first occurrence only.\<close>

fun replace :: "string \<Rightarrow> string \<Rightarrow> string \<Rightarrow> string" where
  "replace pat rep [] = (if pat = [] then rep else [])"
| "replace pat rep (c # cs) =
     (if take (length pat) (c # cs) = pat then rep @ drop (length pat) (c # cs)
      else c # replace pat rep cs)"

fun join :: "string list \<Rightarrow> string" where
  "join [] = []"
| "join [x] = x"
| "join (x # y # ys) = x @ '','' @ join (y # ys)"

text \<open>
  \<^verbatim>\<open>String(v)\<close>, as a template literal applies it. An array joins its elements with
  commas, \<^verbatim>\<open>null\<close> elements giving the empty string.
\<close>

fun toString :: "(int \<Rightarrow> string) \<Rightarrow> json \<Rightarrow> string" where
  "toString num JNull = ''null''"
| "toString num (JBool b) = (if b then ''true'' else ''false'')"
| "toString num (JNum n) = num n"
| "toString num (JStr s) = s"
| "toString num (JArr xs) = join (map (\<lambda>x. if x = JNull then [] else toString num x) xs)"
| "toString num (JObj kvs) = ''[object Object]''"

definition templateString :: "(int \<Rightarrow> string) \<Rightarrow> jsval \<Rightarrow> string" where
  "templateString num v = (case v of None \<Rightarrow> ''undefined'' | Some j \<Rightarrow> toString num j)"

text \<open>\<^verbatim>\<open>Number(v)\<close>, with \<open>None\<close> for \<^verbatim>\<open>NaN\<close>.\<close>

definition toNumber :: "(int \<Rightarrow> string) \<Rightarrow> (string \<Rightarrow> int option) \<Rightarrow> jsval \<Rightarrow> int option" where
  "toNumber num parse v =
     (case v of
        None \<Rightarrow> None
      | Some JNull \<Rightarrow> Some 0
      | Some (JBool b) \<Rightarrow> Some (if b then 1 else 0)
      | Some (JNum n) \<Rightarrow> Some n
      | Some (JStr s) \<Rightarrow> parse s
      | Some j \<Rightarrow> parse (toString num j))"

text \<open>
  \<^verbatim>\<open>v == s\<close> for a string \<open>s\<close> (the loose equality of line 960): \<^verbatim>\<open>null\<close> and
  \<^verbatim>\<open>undefined\<close> equal no string, a string is compared as it is, a number or boolean is
  compared with the number the string denotes, an array or object with its string form.
\<close>

definition looseEqString :: "(int \<Rightarrow> string) \<Rightarrow> (string \<Rightarrow> int option) \<Rightarrow> jsval \<Rightarrow> string \<Rightarrow> bool" where
  "looseEqString num parse v s =
     (case v of
        None \<Rightarrow> False
      | Some JNull \<Rightarrow> False
      | Some (JStr t) \<Rightarrow> t = s
      | Some (JNum n) \<Rightarrow> parse s = Some n
      | Some (JBool b) \<Rightarrow> parse s = Some (if b then 1 else 0)
      | Some j \<Rightarrow> toString num j = s)"

text \<open>
  \<^verbatim>\<open>v.k\<close> for the property names the service reads of a parsed document (none of them is
  a built-in property of a string, an array or \<^verbatim>\<open>Object.prototype\<close>): reading a property
  of \<^verbatim>\<open>null\<close> throws, an object gives the value stored under the key, anything else
  \<^verbatim>\<open>undefined\<close>.
\<close>

definition getProp :: "json \<Rightarrow> string \<Rightarrow> error + jsval" where
  "getProp v k =
     (case v of
        JNull \<Rightarrow> Inl (TypeError (''Cannot read properties of null (reading '' @ k @ '')''))
      | JObj kvs \<Rightarrow> Inr (map_of kvs k)
      | _ \<Rightarrow> Inr None)"

text \<open>
  An object literal whose values may be \<^verbatim>\<open>undefined\<close>, as \<^verbatim>\<open>JSON.stringify\<close> writes it:
  the properties with an \<^verbatim>\<open>undefined\<close> value are left out.
\<close>

definition object :: "(string \<times> jsval) list \<Rightarrow> json" where
  "object kvs = JObj (List.map_filter (\<lambda>(k, v). map_option (\<lambda>j. (k, j)) v) kvs)"

text \<open>\<^verbatim>\<open>{...o, k: v}\<close>: the key keeps its place when \<open>o\<close> has it, and is added last otherwise.\<close>

fun setProp :: "string \<Rightarrow> json \<Rightarrow> (string \<times> json) list \<Rightarrow> (string \<times> json) list" where
  "setProp k v [] = [(k, v)]"
| "setProp k v ((k', v') # kvs) =
     (if k' = k then (k, v) # kvs else (k', v') # setProp k v kvs)"

section \<open>The remote side\<close>

text \<open>
  What a file of the remote store holds: a text that is the JSON serialisation of a value
  (\<open>Json j\<close> stands for the text \<^verbatim>\<open>JSON.stringify(j, null, 2)\<close>), or any other text.
\<close>

datatype content = Json json | Text string

text \<open>
  The requests the service sends through \<^verbatim>\<open>axios.post\<close>, each with the bearer token it
  carries (\<^verbatim>\<open>undefined\<close> is \<open>None\<close>). The paths of a download and of a delete can come from
  a stored document, so they are arbitrary values.
\<close>

datatype request =
    OAuthToken "string option" "string option" "string option"
  | Upload "string option" string content
  | Download "string option" jsval
  | DeleteV2 "string option" jsval
  | ListFolder "string option" string
  | CreateSharedLink "string option" string
  | ListSharedLinks "string option" string

text \<open>The requests that delete a file.\<close>

definition isDelete :: "request \<Rightarrow> bool" where
  "isDelete r = (case r of DeleteV2 t p \<Rightarrow> True | _ \<Rightarrow> False)"

text \<open>
  The body of a 2xx answer of the token endpoint, as \<^verbatim>\<open>response.data\<close>: \<^verbatim>\<open>null\<close>
  (\<open>NoBody\<close>), or a value whose properties \<^verbatim>\<open>access_token\<close> and \<^verbatim>\<open>expires_in\<close> are read,
  each of which may be missing.
\<close>

datatype token_body = NoBody | Body "string option" "int option"

text \<open>
  The environment the service runs in is not part of the repository and is a parameter
  of every operation:
  \<^item> \<open>fault k r\<close>: whether the request \<open>r\<close>, sent as the \<open>k\<close>-th request of the process,
    is rejected by \<^verbatim>\<open>axios\<close> (network error, non-2xx status), and with which message;
  \<^item> \<open>latency k\<close>: the milliseconds that pass while the \<open>k\<close>-th request is awaited;
  \<^item> \<open>token_body k\<close>: the body of the token endpoint's answer to the \<open>k\<close>-th request;
  \<^item> \<open>new_link p\<close>: the URL the remote gives a new shared link of path \<open>p\<close>;
  \<^item> the built-ins of the runtime that are not modelled further: \<^verbatim>\<open>Date.prototype.toISOString\<close>
    and \<^verbatim>\<open>toLocaleDateString\<close> on a valid time value, the parsing of a date string, the
    conversions between numbers and strings, the text of the HTML template, and
    \<^verbatim>\<open>JSON.parse\<close> on a string: \<open>parseJSON s\<close> is the value the text \<open>s\<close> denotes, if it is JSON,
    and \<open>syntaxError s\<close> the message of the \<^verbatim>\<open>SyntaxError\<close> thrown if it is not.
\<close>

record env =
  fault :: "nat \<Rightarrow> request \<Rightarrow> string option"
  latency :: "nat \<Rightarrow> nat"
  token_body :: "nat \<Rightarrow> token_body"
  new_link :: "string \<Rightarrow> string"
  toISOString :: "int \<Rightarrow> string"
  toLocaleDateString :: "int \<Rightarrow> string"
  parseDate :: "string \<Rightarrow> int option"
  numberToString :: "int \<Rightarrow> string"
  stringToNumber :: "string \<Rightarrow> int option"
  template :: "int \<Rightarrow> (string \<times> json) list \<Rightarrow> string"
  parseJSON :: "string \<Rightarrow> json option"
  syntaxError :: "string \<Rightarrow> string"

text \<open>
  \<^verbatim>\<open>response.data\<close> of a request whose answer is the text of a file. No request of the
  service sets \<^verbatim>\<open>responseType\<close> or \<^verbatim>\<open>transformResponse\<close>, so the default transform of
  \<^verbatim>\<open>axios\<close> applies: a non-empty body that is JSON is handed over parsed, any other body as
  the string it is.
\<close>

definition responseData :: "env \<Rightarrow> content \<Rightarrow> json" where
  "responseData env c =
     (case c of
        Json j \<Rightarrow> j
      | Text s \<Rightarrow>
          (if s = [] then JStr s
           else case parseJSON env s of Some j \<Rightarrow> j | None \<Rightarrow> JStr s))"

text \<open>
  \<^verbatim>\<open>JSON.parse(v)\<close> on a value: the argument is converted to a string first. An object
  becomes \<^verbatim>\<open>[object Object]\<close>, which is no JSON text, so the call throws; \<^verbatim>\<open>null\<close>, a boolean
  and a number print as the JSON text of themselves; a string is parsed as it is, an array
  as its elements joined by commas.
\<close>

definition parseText :: "env \<Rightarrow> string \<Rightarrow> error + json" where
  "parseText env s =
     (case parseJSON env s of
        Some j \<Rightarrow> Inr j
      | None \<Rightarrow> Inl (SyntaxError (syntaxError env s)))"

definition JSON_parse :: "env \<Rightarrow> json \<Rightarrow> error + json" where
  "JSON_parse env v =
     (case v of
        JNull \<Rightarrow> Inr JNull
      | JBool b \<Rightarrow> Inr (JBool b)
      | JNum n \<Rightarrow> Inr (JNum n)
      | JStr s \<Rightarrow> parseText env s
      | JArr xs \<Rightarrow> parseText env (toString (numberToString env) (JArr xs))
      | JObj kvs \<Rightarrow> Inl (SyntaxError (syntaxError env ''[object Object]'')))"

text \<open>\<^verbatim>\<open>new Date(v)\<close>: a string is parsed, any other value is converted to a number.\<close>

definition dateOf :: "env \<Rightarrow> jsval \<Rightarrow> date" where
  "dateOf env v =
     (case v of
        Some (JStr s) \<Rightarrow> new_Date (parseDate env s)
      | Some (JArr xs) \<Rightarrow> new_Date (parseDate env (toString (numberToString env) (JArr xs)))
      | Some (JObj kvs) \<Rightarrow> new_Date (parseDate env (toString (numberToString env) (JObj kvs)))
      | _ \<Rightarrow> new_Date (toNumber (numberToString env) (stringToNumber env) v))"

definition localeDateString :: "env \<Rightarrow> date \<Rightarrow> string" where
  "localeDateString env d =
     (case d of Date t \<Rightarrow> toLocaleDateString env t | InvalidDate \<Rightarrow> ''Invalid Date'')"

text \<open>
  The state: the fields of the \<^verbatim>\<open>DropboxService\<close> instance (credentials read from the
  process environment, the access token and its expiry), the clock read by \<^verbatim>\<open>Date.now()\<close>,
  the remote store (files and shared links, in the order the remote lists them), and the
  requests sent so far. \<open>refreshCalls\<close> counts the entries into \<^verbatim>\<open>refreshAccessToken\<close>; it is
  the only field without a counterpart in the source and nothing reads it.
\<close>

record world =
  appKey :: "string option"
  appSecret :: "string option"
  refreshToken :: "string option"
  accessToken :: "string option"
  tokenExpiresAt :: "date option"
  clock :: int
  files :: "(string \<times> content) list"
  links :: "(string \<times> string) list"
  trace :: "request list"
  refreshCalls :: nat

section \<open>Sequencing\<close>

text \<open>
  An asynchronous method is a function from the state to the new state and either the
  value it resolves to (\<open>Inr\<close>) or the value it rejects with (\<open>Inl\<close>). \<open>await\<close> runs the
  continuation on a resolved value and passes a rejection on; \<open>catch\<close> is the handler of
  a \<^verbatim>\<open>try\<close> block.
\<close>

definition await ::
  "world \<times> (error + 'a) \<Rightarrow> (world \<Rightarrow> 'a \<Rightarrow> world \<times> (error + 'b)) \<Rightarrow> world \<times> (error + 'b)" where
  "await m f = (case m of (w, Inl e) \<Rightarrow> (w, Inl e) | (w, Inr x) \<Rightarrow> f w x)"

definition catch ::
  "world \<times> (error + 'a) \<Rightarrow> (world \<Rightarrow> error \<Rightarrow> world \<times> (error + 'a)) \<Rightarrow> world \<times> (error + 'a)" where
  "catch m h = (case m of (w, Inl e) \<Rightarrow> h w e | (w, Inr x) \<Rightarrow> (w, Inr x))"

text \<open>
  Sending a request: it is appended to the trace, the clock advances by the time the
  answer takes, and the environment says whether \<^verbatim>\<open>axios\<close> rejects.
\<close>

definition issue :: "env \<Rightarrow> world \<Rightarrow> request \<Rightarrow> world \<times> string option" where
  "issue env w r =
     (w\<lparr>trace := trace w @ [r], clock := clock w + int (latency env (length (trace w)))\<rparr>,
      fault env (length (trace w)) r)"

definition post_oauth2_token ::
  "env \<Rightarrow> world \<Rightarrow> string option \<Rightarrow> string option \<Rightarrow> string option \<Rightarrow> world \<times> (error + token_body)" where
  "post_oauth2_token env w rt key secret =
     (case issue env w (OAuthToken rt key secret) of
        (w1, Some m) \<Rightarrow> (w1, Inl (AxiosError m))
      | (w1, None) \<Rightarrow> (w1, Inr (token_body env (length (trace w)))))"

section \<open>Token lifecycle\<close>

text \<open>
  \<^verbatim>\<open>refreshAccessToken\<close> (lines 23-55). The fields are assigned before the log line that
  calls \<^verbatim>\<open>toISOString()\<close>, which throws a \<^verbatim>\<open>RangeError\<close> on an invalid date; every throw
  inside the \<^verbatim>\<open>try\<close> is rethrown as \<^verbatim>\<open>Error('Failed to refresh token: ' + message)\<close>.
  \<^verbatim>\<open>Date.now()\<close> is read after the answer has arrived.
\<close>

definition refreshAccessToken :: "env \<Rightarrow> world \<Rightarrow> world \<times> (error + string option)" where
  "refreshAccessToken env w =
     (let w0 = w\<lparr>refreshCalls := Suc (refreshCalls w)\<rparr> in
      catch
        (if \<not> truthy (appKey w0) \<or> \<not> truthy (appSecret w0) \<or> \<not> truthy (refreshToken w0)
         then (w0, Inl (Error ''Missing Dropbox OAuth credentials''))
         else
           await (post_oauth2_token env w0 (refreshToken w0) (appKey w0) (appSecret w0))
             (\<lambda>w1 data.
                case data of
                  NoBody \<Rightarrow>
                    (w1, Inl (TypeError
                       ''Cannot destructure property 'access_token' of 'response.data' as it is null.''))
                | Body access_token expires_in \<Rightarrow>
                    (let expires = new_Date (map_option (\<lambda>s. clock w1 + s * 1000) expires_in);
                         w2 = w1\<lparr>accessToken := access_token, tokenExpiresAt := Some expires\<rparr>
                     in case expires of
                          InvalidDate \<Rightarrow> (w2, Inl (RangeError ''Invalid time value''))
                        | Date _ \<Rightarrow> (w2, Inr (accessToken w2)))))
        (\<lambda>w' e. (w', Inl (Error (''Failed to refresh token: '' @ error_message e)))))"

text \<open>
  \<^verbatim>\<open>refreshTokenIfNeeded\<close> (lines 60-69). \<^verbatim>\<open>!this.accessToken\<close> holds for \<^verbatim>\<open>null\<close>,
  \<^verbatim>\<open>undefined\<close> and the empty string; \<^verbatim>\<open>!this.tokenExpiresAt\<close> holds for \<^verbatim>\<open>null\<close> only (a
  \<^verbatim>\<open>Date\<close> object is truthy); the comparison with the \<^verbatim>\<open>NaN\<close> of an invalid date is false.
\<close>

definition bufferTime :: int where
  "bufferTime = 10 * 60 * 1000"

definition needsRefresh :: "world \<Rightarrow> bool" where
  "needsRefresh w =
     (\<not> truthy (accessToken w) \<or> tokenExpiresAt w = None \<or>
      (case tokenExpiresAt w of
         Some (Date t) \<Rightarrow> clock w \<ge> t - bufferTime
       | _ \<Rightarrow> False))"

definition refreshTokenIfNeeded :: "env \<Rightarrow> world \<Rightarrow> world \<times> (error + string option)" where
  "refreshTokenIfNeeded env w =
     (if needsRefresh w
      then await (refreshAccessToken env w) (\<lambda>w1 _. (w1, Inr (accessToken w1)))
      else (w, Inr (accessToken w)))"

definition getValidToken :: "env \<Rightarrow> world \<Rightarrow> world \<times> (error + string option)" where
  "getValidToken env w =
     await (refreshTokenIfNeeded env w) (\<lambda>w1 _. (w1, Inr (accessToken w1)))"

section \<open>The remote store\<close>

text \<open>
  The store keeps each file under the path it was uploaded with and compares paths
  without regard to case, as the remote does. An upload overwrites (\<^verbatim>\<open>mode: 'overwrite'\<close>);
  a download or delete of a path that is not a string is a bad request, of a path that
  holds no file a conflict. A folder lists the files directly in it, each with its name
  and its lower-cased path (\<^verbatim>\<open>path_lower\<close>).
\<close>

definition find_file :: "(string \<times> content) list \<Rightarrow> string \<Rightarrow> content option" where
  "find_file st p = map_of (map (\<lambda>(q, c). (lower q, c)) st) (lower p)"

definition put_file :: "(string \<times> content) list \<Rightarrow> string \<Rightarrow> content \<Rightarrow> (string \<times> content) list" where
  "put_file st p c = filter (\<lambda>(q, d). lower q \<noteq> lower p) st @ [(p, c)]"

definition remove_file :: "(string \<times> content) list \<Rightarrow> string \<Rightarrow> (string \<times> content) list" where
  "remove_file st p = filter (\<lambda>(q, d). lower q \<noteq> lower p) st"

definition basename :: "string \<Rightarrow> string" where
  "basename p = rev (takeWhile (\<lambda>c. c \<noteq> CHR ''/'') (rev p))"

definition dirname :: "string \<Rightarrow> string" where
  "dirname p = rev (drop 1 (dropWhile (\<lambda>c. c \<noteq> CHR ''/'') (rev p)))"

definition folder_entries :: "(string \<times> content) list \<Rightarrow> string \<Rightarrow> (string \<times> string) list" where
  "folder_entries st folder =
     map (\<lambda>(q, c). (basename q, lower q))
       (filter (\<lambda>(q, c). lower (dirname q) = lower folder) st)"

definition status409 :: string where
  "status409 = ''Request failed with status code 409''"

definition status400 :: string where
  "status400 = ''Request failed with status code 400''"

text \<open>\<^verbatim>\<open>uploadFile\<close> (lines 841-855).\<close>

definition uploadFile :: "env \<Rightarrow> world \<Rightarrow> string \<Rightarrow> content \<Rightarrow> string option \<Rightarrow> world \<times> (error + unit)" where
  "uploadFile env w path c token =
     (case issue env w (Upload token path c) of
        (w1, Some m) \<Rightarrow> (w1, Inl (AxiosError m))
      | (w1, None) \<Rightarrow> (w1\<lparr>files := put_file (files w1) path c\<rparr>, Inr ()))"

text \<open>
  \<^verbatim>\<open>downloadFile\<close> (lines 860-869) resolves to \<^verbatim>\<open>response.data\<close>: the content of the file as
  the HTTP client hands it over.
\<close>

definition downloadFile :: "env \<Rightarrow> world \<Rightarrow> jsval \<Rightarrow> string option \<Rightarrow> world \<times> (error + json)" where
  "downloadFile env w path token =
     (case issue env w (Download token path) of
        (w1, Some m) \<Rightarrow> (w1, Inl (AxiosError m))
      | (w1, None) \<Rightarrow>
          (case path of
             Some (JStr p) \<Rightarrow>
               (case find_file (files w1) p of
                  None \<Rightarrow> (w1, Inl (AxiosError status409))
                | Some c \<Rightarrow> (w1, Inr (responseData env c)))
           | _ \<Rightarrow> (w1, Inl (AxiosError status400))))"

text \<open>\<^verbatim>\<open>deleteFile\<close> (lines 874-885). The remote drops the shared link of a deleted file.\<close>

definition deleteFile :: "env \<Rightarrow> world \<Rightarrow> jsval \<Rightarrow> string option \<Rightarrow> world \<times> (error + unit)" where
  "deleteFile env w path token =
     (case issue env w (DeleteV2 token path) of
        (w1, Some m) \<Rightarrow> (w1, Inl (AxiosError m))
      | (w1, None) \<Rightarrow>
          (case path of
             Some (JStr p) \<Rightarrow>
               (case find_file (files w1) p of
                  None \<Rightarrow> (w1, Inl (AxiosError status409))
                | Some c \<Rightarrow>
                    (w1\<lparr>files := remove_file (files w1) p,
                        links := filter (\<lambda>(q, u). q \<noteq> lower p) (links w1)\<rparr>, Inr ()))
           | _ \<Rightarrow> (w1, Inl (AxiosError status400))))"

text \<open>The three remaining requests, as \<^verbatim>\<open>createSharedLink\<close> and \<^verbatim>\<open>scanDropboxQuotes\<close> send them.\<close>

definition list_folder :: "env \<Rightarrow> world \<Rightarrow> string \<Rightarrow> string option \<Rightarrow> world \<times> (error + (string \<times> string) list)" where
  "list_folder env w path token =
     (case issue env w (ListFolder token path) of
        (w1, Some m) \<Rightarrow> (w1, Inl (AxiosError m))
      | (w1, None) \<Rightarrow> (w1, Inr (folder_entries (files w1) path)))"

definition create_shared_link_with_settings ::
  "env \<Rightarrow> world \<Rightarrow> string \<Rightarrow> string option \<Rightarrow> world \<times> (error + string)" where
  "create_shared_link_with_settings env w path token =
     (case issue env w (CreateSharedLink token path) of
        (w1, Some m) \<Rightarrow> (w1, Inl (AxiosError m))
      | (w1, None) \<Rightarrow>
          (if find_file (files w1) path = None \<or> map_of (links w1) (lower path) \<noteq> None
           then (w1, Inl (AxiosError status409))
           else (w1\<lparr>links := links w1 @ [(lower path, new_link env path)]\<rparr>,
                 Inr (new_link env path))))"

definition list_shared_links ::
  "env \<Rightarrow> world \<Rightarrow> string \<Rightarrow> string option \<Rightarrow> world \<times> (error + string list)" where
  "list_shared_links env w path token =
     (case issue env w (ListSharedLinks token path) of
        (w1, Some m) \<Rightarrow> (w1, Inl (AxiosError m))
      | (w1, None) \<Rightarrow>
          (w1, Inr (map snd (filter (\<lambda>(q, u). q = lower path) (links w1)))))"

text \<open>
  \<^verbatim>\<open>createSharedLink\<close> (lines 890-932): when the creation fails, an existing link is looked
  up; without one, or when the lookup fails too, the first error is thrown again.
\<close>

definition createSharedLink :: "env \<Rightarrow> world \<Rightarrow> string \<Rightarrow> string option \<Rightarrow> world \<times> (error + string)" where
  "createSharedLink env w path token =
     (case create_shared_link_with_settings env w path token of
        (w1, Inr url) \<Rightarrow> (w1, Inr (replace ''?dl=0'' ''?raw=1'' url))
      | (w1, Inl err) \<Rightarrow>
          (case list_shared_links env w1 path token of
             (w2, Inr urls) \<Rightarrow>
               (if urls \<noteq> [] then (w2, Inr (replace ''?dl=0'' ''?raw=1'' (hd urls)))
                else (w2, Inl err))
           | (w2, Inl listError) \<Rightarrow> (w2, Inl err)))"

section \<open>Quotes\<close>

text \<open>
  A quote record is the object the HTTP layer passes on (\<^verbatim>\<open>quoteData\<close>): its properties
  with their JSON values. \<^verbatim>\<open>generateFileName\<close> (lines 287-290) replaces every character
  that is not a letter or digit by an underscore; \<^verbatim>\<open>quote_name.replace\<close> throws when the
  name is not a string.
\<close>

definition generateFileName :: "env \<Rightarrow> (string \<times> json) list \<Rightarrow> error + string" where
  "generateFileName env quoteData =
     (case map_of quoteData ''quote_name'' of
        Some (JStr name) \<Rightarrow>
          Inr (map (\<lambda>c. if alnum c then c else CHR ''_'') name @ ''_''
                 @ templateString (numberToString env) (map_of quoteData ''id'') @ ''.html'')
      | None \<Rightarrow> Inl (TypeError ''Cannot read properties of undefined (reading 'replace')'')
      | Some JNull \<Rightarrow> Inl (TypeError ''Cannot read properties of null (reading 'replace')'')
      | Some _ \<Rightarrow> Inl (TypeError ''quoteData.quote_name.replace is not a function''))"

text \<open>
  \<^verbatim>\<open>generateQuoteHtml\<close> (lines 295-836) fills a fixed template, whose text is left to the
  environment. It throws in three cases only, all in the location list: \<^verbatim>\<open>locations\<close> is a
  non-empty string or an object with a positive \<^verbatim>\<open>length\<close> (neither has a \<^verbatim>\<open>map\<close>
  method), or it is an array with a \<^verbatim>\<open>null\<close> entry (whose \<^verbatim>\<open>name\<close> is read).
\<close>

definition generateQuoteHtml :: "env \<Rightarrow> int \<Rightarrow> (string \<times> json) list \<Rightarrow> error + string" where
  "generateQuoteHtml env now quoteData =
     (case map_of quoteData ''locations'' of
        Some (JStr s) \<Rightarrow>
          (if s \<noteq> [] then Inl (TypeError ''locations.map is not a function'')
           else Inr (template env now quoteData))
      | Some (JObj kvs) \<Rightarrow>
          (case toNumber (numberToString env) (stringToNumber env) (map_of kvs ''length'') of
             Some n \<Rightarrow>
               (if n > 0 then Inl (TypeError ''locations.map is not a function'')
                else Inr (template env now quoteData))
           | None \<Rightarrow> Inr (template env now quoteData))
      | Some (JArr ls) \<Rightarrow>
          (if JNull \<in> set ls then Inl (TypeError ''Cannot read properties of null (reading 'name')'')
           else Inr (template env now quoteData))
      | _ \<Rightarrow> Inr (template env now quoteData))"

record envelope =
  success :: bool
  message :: string

record save_result = envelope +
  quote_id :: jsval
  file_path :: string
  download_url :: "string option"
  metadata :: json

record delete_result = envelope +
  deleted_quote_id :: string

definition quotePath :: "string \<Rightarrow> string" where
  "quotePath fileName = ''/dtf-quotes/'' @ fileName"

definition metadataPath :: "string \<Rightarrow> string" where
  "metadataPath quoteId = ''/dtf-quotes/'' @ quoteId @ ''_metadata.json''"

text \<open>The metadata object of lines 95-107, as it is serialised.\<close>

definition quoteMetadata :: "(string \<times> json) list \<Rightarrow> string \<Rightarrow> string \<Rightarrow> json" where
  "quoteMetadata quoteData filePath stamp =
     object
       [(''id'', map_of quoteData ''id''),
        (''quote_name'', map_of quoteData ''quote_name''),
        (''customer_id'', map_of quoteData ''customer_id''),
        (''customer_email'', map_of quoteData ''customer_email''),
        (''date_created'', map_of quoteData ''date_created''),
        (''data'', map_of quoteData ''data''),
        (''locations'', map_of quoteData ''locations''),
        (''total_transfers'', map_of quoteData ''total_transfers''),
        (''pricing'', map_of quoteData ''pricing''),
        (''file_path'', Some (JStr filePath)),
        (''last_updated'', Some (JStr stamp))]"

text \<open>
  \<^verbatim>\<open>saveQuote\<close> (lines 82-145): token, file name, document, upload of the document, upload
  of the metadata, then the shared link inside its own \<^verbatim>\<open>try\<close>, whose failure leaves
  \<^verbatim>\<open>shareUrl\<close> \<^verbatim>\<open>null\<close>.
\<close>

definition saveQuote :: "env \<Rightarrow> world \<Rightarrow> (string \<times> json) list \<Rightarrow> bool \<Rightarrow> world \<times> (error + save_result)" where
  "saveQuote env w quoteData isUpdate =
     catch
       (await (getValidToken env w) (\<lambda>w1 token.
          case generateFileName env quoteData of
            Inl e \<Rightarrow> (w1, Inl e)
          | Inr fileName \<Rightarrow>
              (case generateQuoteHtml env (clock w1) quoteData of
                 Inl e \<Rightarrow> (w1, Inl e)
               | Inr htmlContent \<Rightarrow>
                   await (uploadFile env w1 (quotePath fileName) (Text htmlContent) token) (\<lambda>w2 _.
                     let md = quoteMetadata quoteData (quotePath fileName) (toISOString env (clock w2)) in
                     await (uploadFile env w2
                              (metadataPath (templateString (numberToString env) (map_of quoteData ''id'')))
                              (Json md) token) (\<lambda>w3 _.
                       let (w4, shareUrl) =
                             (case createSharedLink env w3 (quotePath fileName) token of
                                (w', Inr url) \<Rightarrow> (w', Some url)
                              | (w', Inl shareError) \<Rightarrow> (w', None))
                       in (w4, Inr \<lparr>success = True,
                                    message = (if isUpdate then ''Quote updated successfully''
                                               else ''Quote saved successfully''),
                                    quote_id = map_of quoteData ''id'',
                                    file_path = quotePath fileName,
                                    download_url = shareUrl,
                                    metadata = md\<rparr>))))))
       (\<lambda>w' e. (w', Inl (Error (''Failed to save quote: '' @ error_message e))))"

text \<open>
  \<^verbatim>\<open>loadQuote\<close> (lines 150-170) resolves to the parsed metadata when the format is
  \<^verbatim>\<open>'json'\<close>, and to the downloaded document otherwise. The downloaded metadata goes
  through \<^verbatim>\<open>JSON.parse\<close> once more (line 156).
\<close>

definition loadQuote :: "env \<Rightarrow> world \<Rightarrow> string \<Rightarrow> string \<Rightarrow> world \<times> (error + json)" where
  "loadQuote env w quoteId format =
     catch
       (await (getValidToken env w) (\<lambda>w1 token.
          await (downloadFile env w1 (Some (JStr (metadataPath quoteId))) token) (\<lambda>w2 metadataContent.
            case JSON_parse env metadataContent of
              Inl e \<Rightarrow> (w2, Inl e)
            | Inr md \<Rightarrow>
                (if format = ''json'' then (w2, Inr md)
                 else (case getProp md ''file_path'' of
                         Inl e \<Rightarrow> (w2, Inl e)
                       | Inr p \<Rightarrow>
                           await (downloadFile env w2 p token) (\<lambda>w3 htmlContent.
                             (w3, Inr htmlContent)))))))
       (\<lambda>w' e. (w', Inl (Error (''Failed to load quote: '' @ error_message e))))"

text \<open>
  \<^verbatim>\<open>deleteQuote\<close> (lines 196-220). The second parameter is never read. \<^verbatim>\<open>loadQuote\<close> is
  called with its default format.
\<close>

definition deleteQuote :: "env \<Rightarrow> world \<Rightarrow> string \<Rightarrow> jsval \<Rightarrow> world \<times> (error + delete_result)" where
  "deleteQuote env w quoteId customerId =
     catch
       (await (getValidToken env w) (\<lambda>w1 token.
          await (loadQuote env w1 quoteId ''json'') (\<lambda>w2 md.
            case getProp md ''file_path'' of
              Inl e \<Rightarrow> (w2, Inl e)
            | Inr p \<Rightarrow>
                await (deleteFile env w2 p token) (\<lambda>w3 _.
                  await (deleteFile env w3 (Some (JStr (metadataPath quoteId))) token) (\<lambda>w4 _.
                    (w4, Inr \<lparr>success = True, message = ''Quote deleted successfully'',
                              deleted_quote_id = quoteId\<rparr>))))))
       (\<lambda>w' e. (w', Inl (Error (''Failed to delete quote: '' @ error_message e))))"

section \<open>Listing the quotes of a customer\<close>

text \<open>
  The loop of lines 954-966: each metadata file is downloaded by its lower-cased path
  and parsed, and is pushed when its \<^verbatim>\<open>customer_id\<close> loosely equals the requested one;
  whatever is thrown for one file is caught and the loop goes on.
\<close>

definition loadMetadataFile ::
  "env \<Rightarrow> world \<Rightarrow> string \<Rightarrow> string option \<Rightarrow> (string \<times> string) \<Rightarrow> json list \<Rightarrow> world \<times> (error + json list)" where
  "loadMetadataFile env w customerId token file quotes =
     await (downloadFile env w (Some (JStr (snd file))) token) (\<lambda>w1 c.
       case JSON_parse env c of
         Inl e \<Rightarrow> (w1, Inl e)
       | Inr md \<Rightarrow>
           (case getProp md ''customer_id'' of
              Inl e \<Rightarrow> (w1, Inl e)
            | Inr cid \<Rightarrow>
                (w1, Inr (if looseEqString (numberToString env) (stringToNumber env) cid customerId
                          then quotes @ [md] else quotes))))"

fun scanFiles ::
  "env \<Rightarrow> world \<Rightarrow> string \<Rightarrow> string option \<Rightarrow> (string \<times> string) list \<Rightarrow> json list \<Rightarrow> world \<times> json list" where
  "scanFiles env w customerId token [] quotes = (w, quotes)"
| "scanFiles env w customerId token (file # rest) quotes =
     (case loadMetadataFile env w customerId token file quotes of
        (w1, Inl e) \<Rightarrow> scanFiles env w1 customerId token rest quotes
      | (w1, Inr quotes') \<Rightarrow> scanFiles env w1 customerId token rest quotes')"

text \<open>
  The records the loop collects, read off the store. The download of a listed file, sent
  as the \<open>k\<close>-th request of the process, gives a record when the request is not rejected,
  the file is there, what the HTTP client hands over parses, and the \<^verbatim>\<open>customer_id\<close> of the
  result loosely equals the requested one; it gives nothing otherwise. \<open>fileRecords\<close> goes
  through the entries in their order, the first download being the \<open>k\<close>-th request.
\<close>

definition fileRecord ::
  "env \<Rightarrow> (string \<times> content) list \<Rightarrow> string \<Rightarrow> string option \<Rightarrow> nat \<Rightarrow> (string \<times> string) \<Rightarrow> json option" where
  "fileRecord env st customerId token k entry =
     (if fault env k (Download token (Some (JStr (snd entry)))) \<noteq> None then None
      else case find_file st (snd entry) of
             None \<Rightarrow> None
           | Some c \<Rightarrow>
               (case JSON_parse env (responseData env c) of
                  Inl e \<Rightarrow> None
                | Inr md \<Rightarrow>
                    (case getProp md ''customer_id'' of
                       Inl e \<Rightarrow> None
                     | Inr cid \<Rightarrow>
                         if looseEqString (numberToString env) (stringToNumber env) cid customerId
                         then Some md else None)))"

fun fileRecords ::
  "env \<Rightarrow> (string \<times> content) list \<Rightarrow> string \<Rightarrow> string option \<Rightarrow> nat \<Rightarrow> (string \<times> string) list \<Rightarrow> json list" where
  "fileRecords env st customerId token k [] = []"
| "fileRecords env st customerId token k (entry # rest) =
     (case fileRecord env st customerId token k entry of
        None \<Rightarrow> fileRecords env st customerId token (Suc k) rest
      | Some md \<Rightarrow> md # fileRecords env st customerId token (Suc k) rest)"

text \<open>
  \<^verbatim>\<open>quotes.sort((a, b) => new Date(b.date_created) - new Date(a.date_created))\<close>. The
  sort is stable; with a consistent comparator its result is the one of a stable insertion
  sort, which is the model. \<open>sortsAfter a b\<close> is a positive comparator value: both dates
  are valid and the one of \<open>b\<close> is later. With an invalid date the comparator gives
  \<^verbatim>\<open>NaN\<close>, the language leaves the order to the implementation, and the model keeps the
  insertion order.
\<close>

definition dateCreated :: "env \<Rightarrow> json \<Rightarrow> date" where
  "dateCreated env q = dateOf env (case getProp q ''date_created'' of Inr v \<Rightarrow> v | Inl e \<Rightarrow> None)"

definition sortsAfter :: "env \<Rightarrow> json \<Rightarrow> json \<Rightarrow> bool" where
  "sortsAfter env a b =
     (case (dateCreated env a, dateCreated env b) of
        (Date ta, Date tb) \<Rightarrow> tb - ta > 0
      | _ \<Rightarrow> False)"

fun insertQuote :: "env \<Rightarrow> json \<Rightarrow> json list \<Rightarrow> json list" where
  "insertQuote env a [] = [a]"
| "insertQuote env a (b # bs) =
     (if sortsAfter env a b then b # insertQuote env a bs else a # b # bs)"

definition sortQuotes :: "env \<Rightarrow> json list \<Rightarrow> json list" where
  "sortQuotes env qs = foldr (insertQuote env) qs []"

text \<open>\<^verbatim>\<open>scanDropboxQuotes\<close> (lines 937-977): any failure of the listing gives the empty list.\<close>

definition scanDropboxQuotes :: "env \<Rightarrow> world \<Rightarrow> string \<Rightarrow> string option \<Rightarrow> world \<times> (error + json list)" where
  "scanDropboxQuotes env w customerId token =
     catch
       (await (list_folder env w ''/dtf-quotes'' token) (\<lambda>w1 entries.
          let metadataFiles = filter (\<lambda>entry. endsWith (fst entry) ''_metadata.json'') entries;
              (w2, quotes) = scanFiles env w1 customerId token metadataFiles []
          in (w2, Inr (sortQuotes env quotes))))
       (\<lambda>w' e. (w', Inr []))"

text \<open>
  \<^verbatim>\<open>loadCustomerQuotes\<close> (lines 175-191) copies each quote found, with \<^verbatim>\<open>date_created\<close>
  replaced by the locale date string of that date. Only objects reach this point (a value
  without a \<^verbatim>\<open>customer_id\<close> is never pushed); the spread of any other value is not
  modelled and gives an object with the one property.
\<close>

definition withLocaleDate :: "env \<Rightarrow> json \<Rightarrow> json" where
  "withLocaleDate env q =
     JObj (setProp ''date_created'' (JStr (localeDateString env (dateCreated env q)))
             (case q of JObj kvs \<Rightarrow> kvs | _ \<Rightarrow> []))"

definition loadCustomerQuotes :: "env \<Rightarrow> world \<Rightarrow> string \<Rightarrow> world \<times> (error + json list)" where
  "loadCustomerQuotes env w customerId =
     catch
       (await (getValidToken env w) (\<lambda>w1 token.
          await (scanDropboxQuotes env w1 customerId token) (\<lambda>w2 quotes.
            (w2, Inr (map (withLocaleDate env) quotes)))))
       (\<lambda>w' e. (w', Inr []))"

section \<open>Customer logos\<close>

definition logoMetadataPath :: "string \<Rightarrow> string" where
  "logoMetadataPath customerId = ''/customer_logos/'' @ customerId @ ''/logo_metadata.json''"

text \<open>\<^verbatim>\<open>loadCustomerLogo\<close> (lines 241-254): whatever is thrown, the result is \<^verbatim>\<open>null\<close>.\<close>

definition loadCustomerLogo :: "env \<Rightarrow> world \<Rightarrow> string \<Rightarrow> world \<times> (error + json)" where
  "loadCustomerLogo env w customerId =
     catch
       (await (getValidToken env w) (\<lambda>w1 token.
          await (downloadFile env w1 (Some (JStr (logoMetadataPath customerId))) token) (\<lambda>w2 metadataContent.
            case JSON_parse env metadataContent of
              Inl e \<Rightarrow> (w2, Inl e)
            | Inr logoData \<Rightarrow> (w2, Inr logoData))))
       (\<lambda>w' e. (w', Inr JNull))"

section \<open>Environments and states for concrete runs\<close>

text \<open>
  A quiet environment: no request is rejected, no time passes, the token endpoint answers
  with a token valid for four hours, and the built-ins are constant functions (the time
  value itself is never printed; a string denotes no number and no date, and none of the
  texts met in its runs is JSON).
\<close>

definition quiet :: env where
  "quiet =
     \<lparr>fault = (\<lambda>k r. None), latency = (\<lambda>k. 0),
      token_body = (\<lambda>k. Body (Some ''sl.token'') (Some 14400)),
      new_link = (\<lambda>p. ''https://www.dropbox.com/s/x'' @ p @ ''?dl=0''),
      toISOString = (\<lambda>t. ''2024-01-01T00:00:00.000Z''),
      toLocaleDateString = (\<lambda>t. ''1/1/2024''),
      parseDate = (\<lambda>s. None), numberToString = (\<lambda>n. ''0''), stringToNumber = (\<lambda>s. None),
      template = (\<lambda>now q. ''<!DOCTYPE html>''),
      parseJSON = (\<lambda>s. None), syntaxError = (\<lambda>s. ''Unexpected token in JSON'')\<rparr>"

text \<open>The state after the constructor, with all three credentials configured.\<close>

definition fresh :: world where
  "fresh =
     \<lparr>appKey = Some ''key'', appSecret = Some ''secret'', refreshToken = Some ''refresh'',
      accessToken = None, tokenExpiresAt = None, clock = 1700000000000,
      files = [], links = [], trace = [], refreshCalls = 0\<rparr>"

text \<open>A state holding a token that is valid for another hour, and one whose token is the empty string.\<close>

definition cached :: world where
  "cached = fresh\<lparr>accessToken := Some ''sl.old'', tokenExpiresAt := Some (Date 1700003600000)\<rparr>"

definition emptyToken :: world where
  "emptyToken = cached\<lparr>accessToken := Some ''''\<rparr>"

text \<open>
  An environment whose token endpoint answers 200 with the body \<^verbatim>\<open>{}\<close>, and one in which
  every request is rejected with status 400.
\<close>

definition malformed :: env where
  "malformed = quiet\<lparr>token_body := (\<lambda>k. Body None None)\<rparr>"

definition down :: env where
  "down = quiet\<lparr>fault := (\<lambda>k r. Some status400)\<rparr>"

text \<open>The quote of the scenario in section 8 of the specification.\<close>

definition orderOne :: "(string \<times> json) list" where
  "orderOne =
     [(''id'', JStr ''q1''), (''quote_name'', JStr ''Order #1''),
      (''customer_id'', JStr ''c1''), (''total_transfers'', JNum 50)]"

text \<open>A state with a valid token whose store holds, as logo metadata of \<^verbatim>\<open>c1\<close>, a text that is not JSON.\<close>

definition logoText :: world where
  "logoText = cached\<lparr>files := [(''/customer_logos/c1/logo_metadata.json'', Text ''<html>'')]\<rparr>"

text \<open>An environment in which both sharing requests are rejected and nothing else is.\<close>

definition noShare :: env where
  "noShare =
     quiet\<lparr>fault := (\<lambda>k r. case r of
                              CreateSharedLink t p \<Rightarrow> Some status409
                            | ListSharedLinks t p \<Rightarrow> Some status400
                            | _ \<Rightarrow> None)\<rparr>"

text \<open>The metadata document of the scenario's quote, as the quiet environment stamps it.\<close>

definition orderOneMetadata :: json where
  "orderOneMetadata =
     JObj [(''id'', JStr ''q1''), (''quote_name'', JStr ''Order #1''),
           (''customer_id'', JStr ''c1''), (''total_transfers'', JNum 50),
           (''file_path'', JStr ''/dtf-quotes/Order__1_q1.html''),
           (''last_updated'', JStr ''2024-01-01T00:00:00.000Z'')]"

text \<open>The states a save from the initial state goes through: token obtained, document
  uploaded, metadata uploaded.\<close>

definition tokened :: world where
  "tokened =
     fresh\<lparr>accessToken := Some ''sl.token'', tokenExpiresAt := Some (Date 1700014400000),
           trace := [OAuthToken (Some ''refresh'') (Some ''key'') (Some ''secret'')],
           refreshCalls := 1\<rparr>"

definition documented :: world where
  "documented =
     tokened\<lparr>files := [(''/dtf-quotes/Order__1_q1.html'', Text ''<!DOCTYPE html>'')],
             trace := trace tokened @
               [Upload (Some ''sl.token'') ''/dtf-quotes/Order__1_q1.html'' (Text ''<!DOCTYPE html>'')]\<rparr>"

definition described :: world where
  "described =
     documented\<lparr>files := files documented @ [(''/dtf-quotes/q1_metadata.json'', Json orderOneMetadata)],
                trace := trace documented @
                  [Upload (Some ''sl.token'') ''/dtf-quotes/q1_metadata.json'' (Json orderOneMetadata)]\<rparr>"

text \<open>The state after the scenario's quote has been saved in the quiet environment.\<close>

definition saved :: world where
  "saved =
     described\<lparr>links := [(''/dtf-quotes/order__1_q1.html'',
                          ''https://www.dropbox.com/s/x/dtf-quotes/Order__1_q1.html?dl=0'')],
               trace := trace described @
                 [CreateSharedLink (Some ''sl.token'') ''/dtf-quotes/Order__1_q1.html'']\<rparr>"

text \<open>
  An environment that knows three dates: the ISO strings of the first three days of 2024
  parse to their time values, which print as the locale date strings of those days.
\<close>

definition dated :: env where
  "dated =
     quiet\<lparr>parseDate := (\<lambda>s. if s = ''2024-01-01T00:00:00.000Z'' then Some 1704067200000
                            else if s = ''2024-01-02T00:00:00.000Z'' then Some 1704153600000
                            else if s = ''2024-01-03T00:00:00.000Z'' then Some 1704240000000
                            else None),
           toLocaleDateString := (\<lambda>t. if t = 1704067200000 then ''1/1/2024''
                                     else if t = 1704153600000 then ''1/2/2024''
                                     else if t = 1704240000000 then ''1/3/2024''
                                     else ''12/31/2023'')\<rparr>"

text \<open>Three metadata records: two of customer \<^verbatim>\<open>A\<close>, one of customer \<^verbatim>\<open>B\<close>, created on different days.\<close>

definition recOld :: json where
  "recOld =
     JObj [(''id'', JStr ''a1''), (''customer_id'', JStr ''A''),
           (''date_created'', JStr ''2024-01-01T00:00:00.000Z'')]"

definition recOther :: json where
  "recOther =
     JObj [(''id'', JStr ''b1''), (''customer_id'', JStr ''B''),
           (''date_created'', JStr ''2024-01-02T00:00:00.000Z'')]"

definition recNew :: json where
  "recNew =
     JObj [(''id'', JStr ''a2''), (''customer_id'', JStr ''A''),
           (''date_created'', JStr ''2024-01-03T00:00:00.000Z'')]"

text \<open>A store that holds exactly these three as \<^verbatim>\<open>saveQuote\<close> writes metadata, with a valid token cached.\<close>

definition three :: world where
  "three =
     cached\<lparr>files := [(''/dtf-quotes/a1_metadata.json'', Json recOld),
                      (''/dtf-quotes/b1_metadata.json'', Json recOther),
                      (''/dtf-quotes/a2_metadata.json'', Json recNew)]\<rparr>"

text \<open>
  The JSON texts of the two records of \<^verbatim>\<open>A\<close>, an environment whose \<^verbatim>\<open>JSON.parse\<close> knows
  them, and the same environment with the folder listing rejected.
\<close>

definition textOld :: string where
  "textOld = ''{\"id\":\"a1\",\"customer_id\":\"A\",\"date_created\":\"2024-01-01T00:00:00.000Z\"}''"

definition textNew :: string where
  "textNew = ''{\"id\":\"a2\",\"customer_id\":\"A\",\"date_created\":\"2024-01-03T00:00:00.000Z\"}''"

definition encoded :: env where
  "encoded =
     dated\<lparr>parseJSON := (\<lambda>s. if s = textOld then Some recOld
                            else if s = textNew then Some recNew
                            else None)\<rparr>"

definition noList :: env where
  "noList =
     encoded\<lparr>fault := (\<lambda>k r. case r of ListFolder t p \<Rightarrow> Some ''Network Error'' | _ \<Rightarrow> None)\<rparr>"

text \<open>
  A store whose metadata files hold JSON strings: the texts of the two records of \<^verbatim>\<open>A\<close>,
  serialised once more, so that the parse of line 957 returns the records. The file between
  them is not JSON.
\<close>

definition broken :: world where
  "broken =
     cached\<lparr>files := [(''/dtf-quotes/a1_metadata.json'', Json (JStr textOld)),
                      (''/dtf-quotes/x1_metadata.json'', Text ''<html>''),
                      (''/dtf-quotes/a2_metadata.json'', Json (JStr textNew))]\<rparr>"


section \<open>Properties of the token lifecycle\<close>

text \<open>
  The claim C1 as stated fails where the stored token is the empty string: the token is
  set and the expiry is more than ten minutes away, yet \<^verbatim>\<open>!this.accessToken\<close> holds and a
  refresh is made.
\<close>

theorem refreshTokenIfNeeded_empty_token_counterexample:
  "accessToken emptyToken \<noteq> None \<and>
   tokenExpiresAt emptyToken = Some (Date 1700003600000) \<and>
   clock emptyToken < 1700003600000 - 10 * 60 * 1000 \<and>
   refreshCalls (fst (refreshTokenIfNeeded quiet emptyToken)) = refreshCalls emptyToken + 1"
  by (simp add: emptyToken_def cached_def fresh_def quiet_def refreshTokenIfNeeded_def
        needsRefresh_def truthy_def bufferTime_def refreshAccessToken_def Let_def await_def
        catch_def post_oauth2_token_def issue_def new_Date_def)

text \<open>
  C1 (amended): in every state in which \<^verbatim>\<open>accessToken\<close> is unset or empty, or the expiry is
  unset, or the clock has reached the expiry minus ten minutes, \<^verbatim>\<open>refreshTokenIfNeeded\<close>
  enters \<^verbatim>\<open>refreshAccessToken\<close> exactly once, whatever the outcome of the refresh; in
  every state in which \<^verbatim>\<open>accessToken\<close> is a non-empty string and the clock is before the
  expiry minus ten minutes, it makes no refresh, sends nothing and leaves the whole state
  as it was, resolving to the stored token.
\<close>

theorem refreshTokenIfNeeded_refresh_calls:
  "((accessToken w = None \<or> accessToken w = Some '''' \<or> tokenExpiresAt w = None \<or>
     (tokenExpiresAt w = Some (Date t) \<and> clock w \<ge> t - 10 * 60 * 1000))
    \<longrightarrow> refreshCalls (fst (refreshTokenIfNeeded env w)) = refreshCalls w + 1)
   \<and> ((accessToken w = Some tok \<and> tok \<noteq> '''' \<and> tokenExpiresAt w = Some (Date t) \<and>
        clock w < t - 10 * 60 * 1000)
    \<longrightarrow> refreshTokenIfNeeded env w = (w, Inr (accessToken w)))"
proof (intro conjI impI)
  assume stale: "accessToken w = None \<or> accessToken w = Some '''' \<or> tokenExpiresAt w = None \<or>
     (tokenExpiresAt w = Some (Date t) \<and> clock w \<ge> t - 10 * 60 * 1000)"
  then have "needsRefresh w"
    by (auto simp: needsRefresh_def truthy_def bufferTime_def)
  moreover have "refreshCalls (fst (refreshAccessToken env w)) = Suc (refreshCalls w)"
    by (auto simp: refreshAccessToken_def Let_def await_def catch_def post_oauth2_token_def
          issue_def split: token_body.splits date.splits option.splits)
  ultimately show "refreshCalls (fst (refreshTokenIfNeeded env w)) = refreshCalls w + 1"
    by (auto simp: refreshTokenIfNeeded_def await_def split: prod.splits sum.splits)
next
  assume "accessToken w = Some tok \<and> tok \<noteq> '''' \<and> tokenExpiresAt w = Some (Date t) \<and>
        clock w < t - 10 * 60 * 1000"
  then have "\<not> needsRefresh w"
    by (simp add: needsRefresh_def truthy_def bufferTime_def)
  then show "refreshTokenIfNeeded env w = (w, Inr (accessToken w))"
    by (simp add: refreshTokenIfNeeded_def)
qed

text \<open>
  Both cases at work: the state after the constructor has no token, and one refresh is
  made; the state with a token valid for another hour is left alone.
\<close>

theorem refreshTokenIfNeeded_refresh_calls_witness:
  "accessToken fresh = None \<and>
   refreshCalls (fst (refreshTokenIfNeeded quiet fresh)) = refreshCalls fresh + 1 \<and>
   accessToken cached = Some ''sl.old'' \<and>
   tokenExpiresAt cached = Some (Date 1700003600000) \<and>
   clock cached < 1700003600000 - 10 * 60 * 1000 \<and>
   refreshTokenIfNeeded quiet cached = (cached, Inr (Some ''sl.old''))"
  using refreshTokenIfNeeded_refresh_calls [of fresh 0 quiet "''x''"]
        refreshTokenIfNeeded_refresh_calls [of cached 1700003600000 quiet "''sl.old''"]
  by (simp add: fresh_def cached_def)

text \<open>
  The claim C2 as stated fails for a malformed body: when the token endpoint answers 200
  with a body that has neither \<^verbatim>\<open>access_token\<close> nor \<^verbatim>\<open>expires_in\<close>, the error is raised
  only by the log line after the assignments, and the stored token is gone.
\<close>

theorem refreshAccessToken_malformed_body_counterexample:
  "snd (refreshAccessToken malformed cached)
     = Inl (Error ''Failed to refresh token: Invalid time value'') \<and>
   accessToken cached = Some ''sl.old'' \<and>
   accessToken (fst (refreshAccessToken malformed cached)) = None \<and>
   tokenExpiresAt (fst (refreshAccessToken malformed cached)) = Some InvalidDate"
  by (simp add: malformed_def cached_def fresh_def quiet_def truthy_def refreshAccessToken_def
        Let_def await_def catch_def post_oauth2_token_def issue_def new_Date_def)

text \<open>
  C2 (amended): when the credentials are configured and the token request is rejected
  with a message \<open>m\<close> (network error, non-2xx response), or is answered with a \<^verbatim>\<open>null\<close>
  body, \<^verbatim>\<open>refreshAccessToken\<close> raises an \<^verbatim>\<open>Error\<close> whose message is
  \<^verbatim>\<open>Failed to refresh token: \<close> followed by the message of the underlying error, and the
  stored \<^verbatim>\<open>accessToken\<close> and \<^verbatim>\<open>tokenExpiresAt\<close> are what they were before the call.
\<close>

theorem refreshAccessToken_rejected_keeps_state:
  "(truthy (appKey w) \<and> truthy (appSecret w) \<and> truthy (refreshToken w) \<and>
    fault env (length (trace w)) (OAuthToken (refreshToken w) (appKey w) (appSecret w)) = Some m
    \<longrightarrow> snd (refreshAccessToken env w) = Inl (Error (''Failed to refresh token: '' @ m)) \<and>
        accessToken (fst (refreshAccessToken env w)) = accessToken w \<and>
        tokenExpiresAt (fst (refreshAccessToken env w)) = tokenExpiresAt w)
   \<and> (truthy (appKey w) \<and> truthy (appSecret w) \<and> truthy (refreshToken w) \<and>
      fault env (length (trace w)) (OAuthToken (refreshToken w) (appKey w) (appSecret w)) = None \<and>
      token_body env (length (trace w)) = NoBody
    \<longrightarrow> snd (refreshAccessToken env w)
          = Inl (Error (''Failed to refresh token: '' @
              ''Cannot destructure property 'access_token' of 'response.data' as it is null.'')) \<and>
        accessToken (fst (refreshAccessToken env w)) = accessToken w \<and>
        tokenExpiresAt (fst (refreshAccessToken env w)) = tokenExpiresAt w)"
  by (auto simp: refreshAccessToken_def Let_def await_def catch_def post_oauth2_token_def issue_def)

text \<open>A rejected token request (status 400) with a cached token: the token stays.\<close>

theorem refreshAccessToken_rejected_keeps_state_witness:
  "truthy (appKey cached) \<and> truthy (appSecret cached) \<and> truthy (refreshToken cached) \<and>
   fault down (length (trace cached))
     (OAuthToken (refreshToken cached) (appKey cached) (appSecret cached))
     = Some ''Request failed with status code 400'' \<and>
   snd (refreshAccessToken down cached)
     = Inl (Error ''Failed to refresh token: Request failed with status code 400'') \<and>
   accessToken (fst (refreshAccessToken down cached)) = Some ''sl.old'' \<and>
   tokenExpiresAt (fst (refreshAccessToken down cached)) = Some (Date 1700003600000)"
  using refreshAccessToken_rejected_keeps_state
          [of cached down "''Request failed with status code 400''"]
  by (simp add: down_def cached_def fresh_def quiet_def truthy_def status400_def)

section \<open>What the token check and a download leave alone\<close>

lemmas run_defs =
  getValidToken_def refreshTokenIfNeeded_def needsRefresh_def truthy_def bufferTime_def
  refreshAccessToken_def post_oauth2_token_def new_Date_def await_def catch_def issue_def
  uploadFile_def downloadFile_def deleteFile_def list_folder_def
  create_shared_link_with_settings_def list_shared_links_def createSharedLink_def
  find_file_def put_file_def remove_file_def folder_entries_def basename_def dirname_def
  alnum_def endsWith_def status409_def status400_def
  generateFileName_def generateQuoteHtml_def templateString_def quotePath_def
  metadataPath_def logoMetadataPath_def quoteMetadata_def object_def List.map_filter_def
  JSON_parse_def parseText_def responseData_def getProp_def Let_def

lemma lower_paths:
  "lower ''/dtf-quotes/Order__1_q1.html'' = ''/dtf-quotes/order__1_q1.html''"
  "lower ''/dtf-quotes/q1_metadata.json'' = ''/dtf-quotes/q1_metadata.json''"
  "lower ''/dtf-quotes'' = ''/dtf-quotes''"
  "lower ''/customer_logos/c1/logo_metadata.json'' = ''/customer_logos/c1/logo_metadata.json''"
  by (simp_all add: lower_def lower_char_def)

lemmas world_defs = fresh_def cached_def tokened_def documented_def described_def saved_def

lemma refreshAccessToken_remote:
  assumes "refreshAccessToken env w = (w1, r)"
  shows "files w1 = files w \<and> links w1 = links w \<and>
         filter isDelete (trace w1) = filter isDelete (trace w)"
  using assms
  by (auto simp: refreshAccessToken_def Let_def await_def catch_def post_oauth2_token_def
        issue_def isDelete_def split: if_splits option.splits token_body.splits date.splits)

lemma getValidToken_remote:
  assumes "getValidToken env w = (w1, r)"
  shows "files w1 = files w \<and> links w1 = links w \<and>
         filter isDelete (trace w1) = filter isDelete (trace w)"
proof (cases "needsRefresh w")
  case False
  with assms show ?thesis
    by (simp add: getValidToken_def refreshTokenIfNeeded_def await_def)
next
  case True
  obtain w2 r2 where ref: "refreshAccessToken env w = (w2, r2)"
    by (cases "refreshAccessToken env w")
  with True assms have "w1 = w2"
    by (cases r2) (simp_all add: getValidToken_def refreshTokenIfNeeded_def await_def)
  with refreshAccessToken_remote [OF ref] show ?thesis by simp
qed

lemma downloadFile_remote:
  assumes "downloadFile env w p tok = (w1, r)"
  shows "files w1 = files w \<and> links w1 = links w \<and>
         filter isDelete (trace w1) = filter isDelete (trace w)"
  using assms
  by (auto simp: downloadFile_def issue_def isDelete_def
      split: option.splits json.splits)

lemma downloadFile_missing:
  assumes "find_file (files w) p = None" and "downloadFile env w (Some (JStr p)) tok = (w1, r)"
  shows "r = Inl (AxiosError status409) \<or>
         (\<exists>m. fault env (length (trace w)) (Download tok (Some (JStr p))) = Some m \<and>
              r = Inl (AxiosError m))"
  using assms
  by (auto simp: downloadFile_def issue_def split: option.splits)

text \<open>The answered download of a file that is there.\<close>

lemma downloadFile_found:
  assumes "fault env (length (trace w)) (Download token (Some (JStr p))) = None"
    and "find_file (files w) p = Some c"
  shows "snd (downloadFile env w (Some (JStr p)) token) = Inr (responseData env c)"
  using assms by (simp add: downloadFile_def issue_def)

lemma loadQuote_missing:
  assumes missing: "find_file (files w) (metadataPath quoteId) = None"
    and run: "loadQuote env w quoteId format = (w1, r)"
  shows "(\<exists>m. r = Inl (Error (''Failed to load quote: '' @ m))) \<and> files w1 = files w \<and>
         links w1 = links w \<and> filter isDelete (trace w1) = filter isDelete (trace w)"
proof -
  obtain w2 r2 where tok: "getValidToken env w = (w2, r2)"
    by (cases "getValidToken env w")
  note keep = getValidToken_remote [OF tok]
  show ?thesis
  proof (cases r2)
    case (Inl e)
    with tok run keep show ?thesis
      by (auto simp: loadQuote_def await_def catch_def)
  next
    case (Inr token)
    obtain w3 r3 where dl: "downloadFile env w2 (Some (JStr (metadataPath quoteId))) token = (w3, r3)"
      by (cases "downloadFile env w2 (Some (JStr (metadataPath quoteId))) token")
    from missing keep have "find_file (files w2) (metadataPath quoteId) = None" by simp
    from downloadFile_missing [OF this dl] obtain m where "r3 = Inl (AxiosError m)" by blast
    with tok Inr dl run keep downloadFile_remote [OF dl] show ?thesis
      by (auto simp: loadQuote_def await_def catch_def)
  qed
qed

text \<open>With the token obtained and the download answered, the failure is the status 409.\<close>

lemma loadQuote_missing_409:
  assumes missing: "find_file (files w) (metadataPath quoteId) = None"
    and tok: "getValidToken env w = (w1, Inr token)"
    and ok: "fault env (length (trace w1)) (Download token (Some (JStr (metadataPath quoteId)))) = None"
  shows "snd (loadQuote env w quoteId format)
           = Inl (Error ''Failed to load quote: Request failed with status code 409'')"
proof -
  obtain w2 r2 where dl: "downloadFile env w1 (Some (JStr (metadataPath quoteId))) token = (w2, r2)"
    by (cases "downloadFile env w1 (Some (JStr (metadataPath quoteId))) token")
  from missing getValidToken_remote [OF tok]
  have "find_file (files w1) (metadataPath quoteId) = None" by simp
  from downloadFile_missing [OF this dl] ok have "r2 = Inl (AxiosError status409)" by auto
  with tok dl show ?thesis
    by (simp add: loadQuote_def await_def catch_def status409_def)
qed

section \<open>Properties of deleting a quote\<close>

text \<open>
  The claim C6 as stated fails where the token cannot be obtained: the metadata document
  of \<^verbatim>\<open>q1\<close> does not exist, yet the call fails with the error of the token refresh, before
  any download could tell that the document is missing. The service has no error kinds;
  what it raises is an \<^verbatim>\<open>Error\<close> with a message.
\<close>

theorem deleteQuote_not_found_counterexample:
  "find_file (files fresh) (metadataPath ''q1'') = None \<and>
   deleteQuote down fresh ''q1'' None =
     (fresh\<lparr>trace := [OAuthToken (Some ''refresh'') (Some ''key'') (Some ''secret'')],
            refreshCalls := 1\<rparr>,
      Inl (Error ''Failed to delete quote: Failed to refresh token: Request failed with status code 400''))"
  by (simp add: deleteQuote_def down_def quiet_def fresh_def run_defs)

text \<open>
  C6 (amended): for every identifier whose metadata document does not exist,
  \<^verbatim>\<open>deleteQuote\<close> fails before any delete is issued: it raises an \<^verbatim>\<open>Error\<close> whose message is
  \<^verbatim>\<open>Failed to delete quote: \<close> followed by the message of what stopped it, the delete
  requests of the trace are those that were there before the call, and the files and
  shared links of the remote store are unchanged. When both token checks succeed and the
  download of the metadata is answered, the message is
  \<^verbatim>\<open>Failed to delete quote: Failed to load quote: Request failed with status code 409\<close>.
\<close>

theorem deleteQuote_missing_metadata:
  assumes missing: "find_file (files w) (metadataPath quoteId) = None"
  shows "(\<exists>m. snd (deleteQuote env w quoteId customerId)
              = Inl (Error (''Failed to delete quote: '' @ m))) \<and>
         files (fst (deleteQuote env w quoteId customerId)) = files w \<and>
         links (fst (deleteQuote env w quoteId customerId)) = links w \<and>
         filter isDelete (trace (fst (deleteQuote env w quoteId customerId)))
           = filter isDelete (trace w) \<and>
         (getValidToken env w = (w1, Inr token) \<and> getValidToken env w1 = (w2, Inr token') \<and>
          fault env (length (trace w2)) (Download token' (Some (JStr (metadataPath quoteId)))) = None
            \<longrightarrow> snd (deleteQuote env w quoteId customerId)
                  = Inl (Error ''Failed to delete quote: Failed to load quote: Request failed with status code 409''))"
proof -
  have stopped: "(\<exists>m. snd (deleteQuote env w quoteId customerId)
              = Inl (Error (''Failed to delete quote: '' @ m))) \<and>
         files (fst (deleteQuote env w quoteId customerId)) = files w \<and>
         links (fst (deleteQuote env w quoteId customerId)) = links w \<and>
         filter isDelete (trace (fst (deleteQuote env w quoteId customerId)))
           = filter isDelete (trace w)"
  proof -
    obtain wa r1 where tok: "getValidToken env w = (wa, r1)"
      by (cases "getValidToken env w")
    note keep = getValidToken_remote [OF tok]
    show ?thesis
    proof (cases r1)
      case (Inl e)
      with tok keep show ?thesis
        by (simp add: deleteQuote_def await_def catch_def)
    next
      case (Inr tk)
      obtain wb r2 where ld: "loadQuote env wa quoteId ''json'' = (wb, r2)"
        by (cases "loadQuote env wa quoteId ''json''")
      from missing keep have "find_file (files wa) (metadataPath quoteId) = None" by simp
      from loadQuote_missing [OF this ld] obtain m
        where "r2 = Inl (Error (''Failed to load quote: '' @ m))" and "files wb = files wa"
          and "links wb = links wa"
          and "filter isDelete (trace wb) = filter isDelete (trace wa)" by blast
      with tok Inr ld keep show ?thesis
        by (simp add: deleteQuote_def await_def catch_def)
    qed
  qed
  have answered: "snd (deleteQuote env w quoteId customerId)
        = Inl (Error ''Failed to delete quote: Failed to load quote: Request failed with status code 409'')"
    if run: "getValidToken env w = (w1, Inr token) \<and> getValidToken env w1 = (w2, Inr token') \<and>
          fault env (length (trace w2)) (Download token' (Some (JStr (metadataPath quoteId)))) = None"
  proof -
    from missing run getValidToken_remote [of env w w1 "Inr token"]
    have "find_file (files w1) (metadataPath quoteId) = None" by simp
    from loadQuote_missing_409 [OF this, of env w2 token' "''json''"] run
    have "snd (loadQuote env w1 quoteId ''json'')
            = Inl (Error ''Failed to load quote: Request failed with status code 409'')"
      by simp
    with run show ?thesis
      by (cases "loadQuote env w1 quoteId ''json''")
         (simp add: deleteQuote_def await_def catch_def)
  qed
  from stopped answered show ?thesis by blast
qed

text \<open>
  With a valid token and an empty store, the only request of the failed call is the
  download of the metadata, answered with status 409.
\<close>

theorem deleteQuote_missing_metadata_witness:
  "find_file (files cached) (metadataPath ''q1'') = None \<and>
   getValidToken quiet cached = (cached, Inr (Some ''sl.old'')) \<and>
   fault quiet (length (trace cached))
     (Download (Some ''sl.old'') (Some (JStr (metadataPath ''q1'')))) = None \<and>
   deleteQuote quiet cached ''q1'' None =
     (cached\<lparr>trace := [Download (Some ''sl.old'') (Some (JStr ''/dtf-quotes/q1_metadata.json''))]\<rparr>,
      Inl (Error ''Failed to delete quote: Failed to load quote: Request failed with status code 409''))"
proof -
  have h: "find_file (files cached) (metadataPath ''q1'') = None"
    by (simp add: cached_def fresh_def find_file_def)
  have tok: "getValidToken quiet cached = (cached, Inr (Some ''sl.old''))"
    by (simp add: quiet_def cached_def fresh_def run_defs)
  have ok: "fault quiet (length (trace cached))
     (Download (Some ''sl.old'') (Some (JStr (metadataPath ''q1'')))) = None"
    by (simp add: quiet_def)
  have state: "fst (deleteQuote quiet cached ''q1'' None) =
     cached\<lparr>trace := [Download (Some ''sl.old'') (Some (JStr ''/dtf-quotes/q1_metadata.json''))]\<rparr>"
    by (simp add: deleteQuote_def loadQuote_def getValidToken_def refreshTokenIfNeeded_def
        needsRefresh_def truthy_def bufferTime_def await_def catch_def downloadFile_def issue_def
        find_file_def metadataPath_def status409_def cached_def fresh_def quiet_def)
  from deleteQuote_missing_metadata [OF h, of quiet None cached "Some ''sl.old''" cached "Some ''sl.old''"]
       tok ok
  have "snd (deleteQuote quiet cached ''q1'' None)
          = Inl (Error ''Failed to delete quote: Failed to load quote: Request failed with status code 409'')"
    by simp
  with state h tok ok show ?thesis
    by (cases "deleteQuote quiet cached ''q1'' None") simp
qed

text \<open>
  C9: the \<^verbatim>\<open>customerId\<close> argument of \<^verbatim>\<open>deleteQuote\<close> has no effect: for every identifier and
  every two values of the argument the call leaves the same state (so the same requests
  were sent) and resolves or raises with the same value.
\<close>

theorem deleteQuote_ignores_customerId:
  "deleteQuote env w quoteId customerId = deleteQuote env w quoteId customerId'"
  by (simp add: deleteQuote_def)

text \<open>
  On the store that holds the quote saved for customer \<^verbatim>\<open>c1\<close>, the call on behalf of
  \<^verbatim>\<open>c2\<close> does what the call without a customer does: the metadata is downloaded, its
  second parse throws, and nothing is deleted.
\<close>

theorem deleteQuote_ignores_customerId_witness:
  "deleteQuote quiet saved ''q1'' (Some (JStr ''c2'')) = deleteQuote quiet saved ''q1'' None \<and>
   deleteQuote quiet saved ''q1'' (Some (JStr ''c2'')) =
     (saved\<lparr>trace := trace saved @
                [Download (Some ''sl.token'') (Some (JStr ''/dtf-quotes/q1_metadata.json''))]\<rparr>,
      Inl (Error ''Failed to delete quote: Failed to load quote: Unexpected token in JSON''))"
proof -
  have "deleteQuote quiet saved ''q1'' None =
     (saved\<lparr>trace := trace saved @
                [Download (Some ''sl.token'') (Some (JStr ''/dtf-quotes/q1_metadata.json''))]\<rparr>,
      Inl (Error ''Failed to delete quote: Failed to load quote: Unexpected token in JSON''))"
    by (simp add: world_defs orderOneMetadata_def deleteQuote_def loadQuote_def quiet_def
          run_defs lower_paths)
  then show ?thesis
    using deleteQuote_ignores_customerId [of quiet saved "''q1''" "Some (JStr ''c2'')" None]
    by simp
qed

section \<open>Properties of loading a logo\<close>

text \<open>
  C10: \<^verbatim>\<open>loadCustomerLogo\<close> never raises, and resolves to \<^verbatim>\<open>null\<close> on every failure: when
  the token cannot be obtained (a token-refresh failure does not propagate), when the
  download of the logo metadata fails (absent document or any other rejection), and when
  the downloaded content does not parse as JSON.
\<close>

theorem loadCustomerLogo_null_on_failure:
  "(\<exists>logoData. snd (loadCustomerLogo env w customerId) = Inr logoData) \<and>
   (snd (getValidToken env w) = Inl e \<longrightarrow> snd (loadCustomerLogo env w customerId) = Inr JNull) \<and>
   (getValidToken env w = (w1, Inr token) \<and>
    snd (downloadFile env w1 (Some (JStr (logoMetadataPath customerId))) token) = Inl e
      \<longrightarrow> snd (loadCustomerLogo env w customerId) = Inr JNull) \<and>
   (getValidToken env w = (w1, Inr token) \<and>
    downloadFile env w1 (Some (JStr (logoMetadataPath customerId))) token = (w2, Inr c) \<and>
    JSON_parse env c = Inl e
      \<longrightarrow> snd (loadCustomerLogo env w customerId) = Inr JNull)"
proof (intro conjI impI)
  show "\<exists>logoData. snd (loadCustomerLogo env w customerId) = Inr logoData"
    by (auto simp: loadCustomerLogo_def await_def catch_def split: prod.splits sum.splits)
next
  assume "snd (getValidToken env w) = Inl e"
  then show "snd (loadCustomerLogo env w customerId) = Inr JNull"
    by (cases "getValidToken env w") (simp add: loadCustomerLogo_def await_def catch_def)
next
  assume "getValidToken env w = (w1, Inr token) \<and>
    snd (downloadFile env w1 (Some (JStr (logoMetadataPath customerId))) token) = Inl e"
  then show "snd (loadCustomerLogo env w customerId) = Inr JNull"
    by (cases "downloadFile env w1 (Some (JStr (logoMetadataPath customerId))) token")
       (simp add: loadCustomerLogo_def await_def catch_def)
next
  assume "getValidToken env w = (w1, Inr token) \<and>
    downloadFile env w1 (Some (JStr (logoMetadataPath customerId))) token = (w2, Inr c) \<and>
    JSON_parse env c = Inl e"
  then show "snd (loadCustomerLogo env w customerId) = Inr JNull"
    by (simp add: loadCustomerLogo_def await_def catch_def)
qed

text \<open>
  The three failures at work: a rejected token request, a rejected download with a valid
  token, and a stored text that does not parse.
\<close>

theorem loadCustomerLogo_null_on_failure_witness:
  "snd (getValidToken down fresh)
     = Inl (Error ''Failed to refresh token: Request failed with status code 400'') \<and>
   snd (loadCustomerLogo down fresh ''c1'') = Inr JNull \<and>
   getValidToken down cached = (cached, Inr (Some ''sl.old'')) \<and>
   snd (downloadFile down cached (Some (JStr (logoMetadataPath ''c1''))) (Some ''sl.old''))
     = Inl (AxiosError ''Request failed with status code 400'') \<and>
   snd (loadCustomerLogo down cached ''c1'') = Inr JNull \<and>
   getValidToken quiet logoText = (logoText, Inr (Some ''sl.old'')) \<and>
   snd (downloadFile quiet logoText (Some (JStr (logoMetadataPath ''c1''))) (Some ''sl.old''))
     = Inr (JStr ''<html>'') \<and>
   JSON_parse quiet (JStr ''<html>'') = Inl (SyntaxError ''Unexpected token in JSON'') \<and>
   snd (loadCustomerLogo quiet logoText ''c1'') = Inr JNull"
proof -
  have a: "snd (getValidToken down fresh)
     = Inl (Error ''Failed to refresh token: Request failed with status code 400'')"
    by (simp add: down_def quiet_def fresh_def run_defs)
  have b: "getValidToken down cached = (cached, Inr (Some ''sl.old''))"
    by (simp add: down_def quiet_def cached_def fresh_def run_defs)
  have c: "snd (downloadFile down cached (Some (JStr (logoMetadataPath ''c1''))) (Some ''sl.old''))
     = Inl (AxiosError ''Request failed with status code 400'')"
    by (simp add: down_def quiet_def cached_def fresh_def run_defs)
  have d: "getValidToken quiet logoText = (logoText, Inr (Some ''sl.old''))"
    by (simp add: logoText_def quiet_def cached_def fresh_def run_defs)
  have e: "downloadFile quiet logoText (Some (JStr (logoMetadataPath ''c1''))) (Some ''sl.old'')
     = (logoText\<lparr>trace := [Download (Some ''sl.old'') (Some (JStr (logoMetadataPath ''c1'')))]\<rparr>,
        Inr (JStr ''<html>''))"
    by (simp add: logoText_def quiet_def cached_def fresh_def run_defs lower_paths)
  have f: "JSON_parse quiet (JStr ''<html>'') = Inl (SyntaxError ''Unexpected token in JSON'')"
    by (simp add: JSON_parse_def parseText_def quiet_def)
  from a b c d e f show ?thesis
    using loadCustomerLogo_null_on_failure
            [of down fresh "''c1''"
                "Error ''Failed to refresh token: Request failed with status code 400''"]
          loadCustomerLogo_null_on_failure
            [of down cached "''c1''" "AxiosError ''Request failed with status code 400''"
                cached "Some ''sl.old''"]
          loadCustomerLogo_null_on_failure
            [of quiet logoText "''c1''" "SyntaxError ''Unexpected token in JSON''"
                logoText "Some ''sl.old''" _ "JStr ''<html>''"]
    by simp
qed

section \<open>Properties of saving a quote\<close>

lemma uploadFile_resolved:
  assumes "uploadFile env w p c tok = (w', Inr u)"
  shows "files w' = put_file (files w) p c \<and> links w' = links w"
  using assms by (auto simp: uploadFile_def issue_def split: option.splits)

lemma createSharedLink_files:
  assumes "createSharedLink env w p tok = (w', r)"
  shows "files w' = files w"
  using assms
  by (auto simp: createSharedLink_def create_shared_link_with_settings_def list_shared_links_def
        issue_def split: option.splits if_splits)

lemma find_put_file: "find_file (put_file st p c) p = Some c"
proof -
  have "lower p \<notin> fst ` set (map (\<lambda>(q, c). (lower q, c)) (filter (\<lambda>(q, d). lower q \<noteq> lower p) st))"
    by auto
  then have "map_of (map (\<lambda>(q, c). (lower q, c)) (filter (\<lambda>(q, d). lower q \<noteq> lower p) st)) (lower p) = None"
    by (simp add: map_of_eq_None_iff)
  then show ?thesis
    by (simp add: find_file_def put_file_def map_add_def)
qed

text \<open>What a resolved save has gone through.\<close>

lemma saveQuote_resolved:
  assumes "saveQuote env w quoteData isUpdate = (w', Inr r)"
  shows "\<exists>w1 token fileName htmlContent w2 w3.
    getValidToken env w = (w1, Inr token) \<and>
    generateFileName env quoteData = Inr fileName \<and>
    generateQuoteHtml env (clock w1) quoteData = Inr htmlContent \<and>
    uploadFile env w1 (quotePath fileName) (Text htmlContent) token = (w2, Inr ()) \<and>
    uploadFile env w2 (metadataPath (templateString (numberToString env) (map_of quoteData ''id'')))
       (Json (quoteMetadata quoteData (quotePath fileName) (toISOString env (clock w2)))) token
      = (w3, Inr ()) \<and>
    w' = fst (createSharedLink env w3 (quotePath fileName) token) \<and>
    success r \<and> quote_id r = map_of quoteData ''id'' \<and> file_path r = quotePath fileName \<and>
    download_url r = (case snd (createSharedLink env w3 (quotePath fileName) token) of
                        Inr url \<Rightarrow> Some url | Inl e \<Rightarrow> None) \<and>
    metadata r = quoteMetadata quoteData (quotePath fileName) (toISOString env (clock w2))"
  using assms
  by (auto simp: saveQuote_def await_def catch_def Let_def split: prod.splits sum.splits)

text \<open>And the converse: once both uploads have resolved, so does the save.\<close>

lemma saveQuote_resolves:
  assumes tok: "getValidToken env w = (w1, Inr token)"
    and name: "generateFileName env quoteData = Inr fileName"
    and html: "generateQuoteHtml env (clock w1) quoteData = Inr htmlContent"
    and doc: "uploadFile env w1 (quotePath fileName) (Text htmlContent) token = (w2, Inr ())"
    and meta: "uploadFile env w2
                 (metadataPath (templateString (numberToString env) (map_of quoteData ''id'')))
                 (Json (quoteMetadata quoteData (quotePath fileName) (toISOString env (clock w2))))
                 token = (w3, Inr ())"
  shows "saveQuote env w quoteData isUpdate =
           (fst (createSharedLink env w3 (quotePath fileName) token),
            Inr \<lparr>success = True,
                 message = (if isUpdate then ''Quote updated successfully''
                            else ''Quote saved successfully''),
                 quote_id = map_of quoteData ''id'',
                 file_path = quotePath fileName,
                 download_url = (case snd (createSharedLink env w3 (quotePath fileName) token) of
                                   Inr url \<Rightarrow> Some url | Inl e \<Rightarrow> None),
                 metadata = quoteMetadata quoteData (quotePath fileName)
                              (toISOString env (clock w2))\<rparr>)"
proof (cases "createSharedLink env w3 (quotePath fileName) token")
  case (Pair w4 shared)
  with tok name html doc meta show ?thesis
    by (cases shared) (simp_all add: saveQuote_def await_def catch_def)
qed

lemma map_of_map_filter:
  assumes "distinct (map fst kvs)"
  shows "map_of (List.map_filter (\<lambda>(k, v). map_option (\<lambda>j. (k, j)) v) kvs) k
         = (case map_of kvs k of Some v \<Rightarrow> v | None \<Rightarrow> None)"
  using assms
proof (induction kvs)
  case Nil
  then show ?case by (simp add: List.map_filter_simps)
next
  case (Cons kv kvs)
  obtain k' v' where kv: "kv = (k', v')" by (cases kv)
  from Cons.prems kv have notin: "k' \<notin> fst ` set kvs" by simp
  show ?case
  proof (cases "k' = k")
    case True
    with notin have "map_of kvs k = None" by (simp add: map_of_eq_None_iff)
    with Cons kv True show ?thesis
      by (cases v') (simp_all add: List.map_filter_simps)
  next
    case False
    with Cons kv show ?thesis
      by (cases v') (simp_all add: List.map_filter_simps)
  qed
qed

lemma getProp_object:
  assumes "distinct (map fst kvs)"
  shows "getProp (object kvs) k = Inr (case map_of kvs k of Some v \<Rightarrow> v | None \<Rightarrow> None)"
  using assms by (simp add: object_def getProp_def map_of_map_filter)

lemma getProp_quoteMetadata:
  "getProp (quoteMetadata quoteData filePath stamp) k =
     Inr (if k = ''file_path'' then Some (JStr filePath)
          else if k = ''last_updated'' then Some (JStr stamp)
          else if k \<in> set [''id'', ''quote_name'', ''customer_id'', ''customer_email'',
                            ''date_created'', ''data'', ''locations'', ''total_transfers'', ''pricing'']
          then map_of quoteData k else None)"
  by (simp add: quoteMetadata_def getProp_object)

lemma generateFileName_orderOne: "generateFileName env orderOne = Inr ''Order__1_q1.html''"
  by (simp add: generateFileName_def orderOne_def templateString_def alnum_def)

text \<open>The stages of the scenario's save, in an environment that may reject the sharing requests.\<close>

lemma orderOne_stages:
  assumes "env = quiet \<or> env = noShare"
  shows "getValidToken env fresh = (tokened, Inr (Some ''sl.token''))"
    and "generateQuoteHtml env (clock tokened) orderOne = Inr ''<!DOCTYPE html>''"
    and "uploadFile env tokened (quotePath ''Order__1_q1.html'') (Text ''<!DOCTYPE html>'')
           (Some ''sl.token'') = (documented, Inr ())"
    and "uploadFile env documented
           (metadataPath (templateString (numberToString env) (map_of orderOne ''id'')))
           (Json (quoteMetadata orderOne (quotePath ''Order__1_q1.html'')
                    (toISOString env (clock documented))))
           (Some ''sl.token'') = (described, Inr ())"
  using assms
  by (auto simp: noShare_def quiet_def world_defs orderOne_def orderOneMetadata_def
        run_defs lower_paths)

text \<open>
  C7: for every quote whose document upload and metadata upload succeed (the token was
  obtained and the file name and document were generated before), \<^verbatim>\<open>saveQuote\<close> resolves to
  a success envelope whatever the sharing step does, and the \<^verbatim>\<open>download_url\<close> of the envelope
  is \<^verbatim>\<open>null\<close> exactly when \<^verbatim>\<open>createSharedLink\<close> raised.
\<close>

theorem saveQuote_share_failure_swallowed:
  assumes "getValidToken env w = (w1, Inr token)"
    and "generateFileName env quoteData = Inr fileName"
    and "generateQuoteHtml env (clock w1) quoteData = Inr htmlContent"
    and "uploadFile env w1 (quotePath fileName) (Text htmlContent) token = (w2, Inr ())"
    and "uploadFile env w2
           (metadataPath (templateString (numberToString env) (map_of quoteData ''id'')))
           (Json (quoteMetadata quoteData (quotePath fileName) (toISOString env (clock w2))))
           token = (w3, Inr ())"
  shows "\<exists>r. snd (saveQuote env w quoteData isUpdate) = Inr r \<and> success r \<and>
             (download_url r = None) =
               (\<exists>e. snd (createSharedLink env w3 (quotePath fileName) token) = Inl e)"
proof -
  let ?share = "snd (createSharedLink env w3 (quotePath fileName) token)"
  let ?r = "\<lparr>success = True,
             message = (if isUpdate then ''Quote updated successfully''
                        else ''Quote saved successfully''),
             quote_id = map_of quoteData ''id'', file_path = quotePath fileName,
             download_url = (case ?share of Inr url \<Rightarrow> Some url | Inl e \<Rightarrow> None),
             metadata = quoteMetadata quoteData (quotePath fileName) (toISOString env (clock w2))\<rparr>"
  from saveQuote_resolves [OF assms, of isUpdate]
  have "snd (saveQuote env w quoteData isUpdate) = Inr ?r" by simp
  moreover have "(download_url ?r = None) = (\<exists>e. ?share = Inl e)"
    by (cases ?share) simp_all
  ultimately have "snd (saveQuote env w quoteData isUpdate) = Inr ?r \<and> success ?r \<and>
      (download_url ?r = None) = (\<exists>e. ?share = Inl e)"
    by simp
  then show ?thesis by (rule exI)
qed

text \<open>
  The scenario's quote, saved while both sharing requests are rejected: the creation of
  the link fails with status 409, and the save resolves with a \<^verbatim>\<open>null\<close> link.
\<close>

theorem saveQuote_share_failure_swallowed_witness:
  "snd (createSharedLink noShare described ''/dtf-quotes/Order__1_q1.html'' (Some ''sl.token''))
     = Inl (AxiosError ''Request failed with status code 409'') \<and>
   (\<exists>r. snd (saveQuote noShare fresh orderOne False) = Inr r \<and> success r \<and> download_url r = None)"
proof -
  have env: "noShare = quiet \<or> noShare = noShare" by simp
  have share: "snd (createSharedLink noShare described ''/dtf-quotes/Order__1_q1.html'' (Some ''sl.token''))
     = Inl (AxiosError ''Request failed with status code 409'')"
    by (simp add: noShare_def quiet_def world_defs run_defs lower_paths)
  from saveQuote_share_failure_swallowed
         [OF orderOne_stages(1) [OF env] generateFileName_orderOne orderOne_stages(2-4) [OF env],
          of False]
       share
  show ?thesis by (simp add: quotePath_def)
qed

text \<open>
  C8: whenever saving the quote \<^verbatim>\<open>{id: "q1", quote_name: "Order #1", customer_id: "c1",
  total_transfers: 50}\<close> resolves, the envelope is a success envelope with \<^verbatim>\<open>quote_id\<close> \<^verbatim>\<open>"q1"\<close>,
  \<^verbatim>\<open>file_path\<close> \<^verbatim>\<open>/dtf-quotes/Order__1_q1.html\<close> and a metadata record whose
  \<^verbatim>\<open>total_transfers\<close> is 50; and it does resolve in every environment that rejects no
  request, from every state in which the token can be obtained.
\<close>

theorem saveQuote_scenario:
  "(snd (saveQuote env w orderOne isUpdate) = Inr r \<longrightarrow>
      success r \<and> quote_id r = Some (JStr ''q1'') \<and>
      file_path r = ''/dtf-quotes/Order__1_q1.html'' \<and>
      getProp (metadata r) ''total_transfers'' = Inr (Some (JNum 50))) \<and>
   ((\<forall>k q. fault env k q = None) \<and> snd (getValidToken env w) = Inr token \<longrightarrow>
      (\<exists>r'. snd (saveQuote env w orderOne isUpdate) = Inr r'))"
proof -
  have fields: "success r \<and> quote_id r = Some (JStr ''q1'') \<and>
      file_path r = ''/dtf-quotes/Order__1_q1.html'' \<and>
      getProp (metadata r) ''total_transfers'' = Inr (Some (JNum 50))"
    if "snd (saveQuote env w orderOne isUpdate) = Inr r"
  proof -
    from that obtain w' where "saveQuote env w orderOne isUpdate = (w', Inr r)"
      by (cases "saveQuote env w orderOne isUpdate") simp
    from saveQuote_resolved [OF this] obtain fileName stamp where
      "generateFileName env orderOne = Inr fileName" and
      r: "success r" "quote_id r = map_of orderOne ''id''" "file_path r = quotePath fileName"
         "metadata r = quoteMetadata orderOne (quotePath fileName) stamp"
      by blast
    with generateFileName_orderOne [of env] have "fileName = ''Order__1_q1.html''" by simp
    with r show ?thesis
      by (simp add: getProp_quoteMetadata quotePath_def orderOne_def)
  qed
  have resolves: "\<exists>r'. snd (saveQuote env w orderOne isUpdate) = Inr r'"
    if quiet: "(\<forall>k q. fault env k q = None) \<and> snd (getValidToken env w) = Inr token"
  proof -
    from quiet obtain w1 where tok: "getValidToken env w = (w1, Inr token)"
      by (cases "getValidToken env w") simp
    have html: "generateQuoteHtml env (clock w1) orderOne = Inr (template env (clock w1) orderOne)"
      by (simp add: generateQuoteHtml_def orderOne_def)
    from quiet obtain w2 where
      doc: "uploadFile env w1 (quotePath ''Order__1_q1.html'')
              (Text (template env (clock w1) orderOne)) token = (w2, Inr ())"
      by (simp add: uploadFile_def issue_def)
    from quiet obtain w3 where
      meta: "uploadFile env w2
               (metadataPath (templateString (numberToString env) (map_of orderOne ''id'')))
               (Json (quoteMetadata orderOne (quotePath ''Order__1_q1.html'')
                        (toISOString env (clock w2))))
               token = (w3, Inr ())"
      by (simp add: uploadFile_def issue_def)
    from saveQuote_resolves [OF tok generateFileName_orderOne html doc meta, of isUpdate]
    show ?thesis by simp
  qed
  from fields resolves show ?thesis by blast
qed

text \<open>The scenario in the quiet environment, from the initial state.\<close>

theorem saveQuote_scenario_witness:
  "(\<forall>k q. fault quiet k q = None) \<and>
   snd (getValidToken quiet fresh) = Inr (Some ''sl.token'') \<and>
   (\<exists>r. snd (saveQuote quiet fresh orderOne False) = Inr r \<and> success r \<and>
        quote_id r = Some (JStr ''q1'') \<and> file_path r = ''/dtf-quotes/Order__1_q1.html'' \<and>
        getProp (metadata r) ''total_transfers'' = Inr (Some (JNum 50)))"
proof -
  have q: "\<forall>k q. fault quiet k q = None" by (simp add: quiet_def)
  have t: "snd (getValidToken quiet fresh) = Inr (Some ''sl.token'')"
    by (simp add: orderOne_stages(1))
  from q t saveQuote_scenario [of quiet fresh False _ "Some ''sl.token''"]
  obtain r where r: "snd (saveQuote quiet fresh orderOne False) = Inr r" by blast
  with saveQuote_scenario [of quiet fresh False r "Some ''sl.token''"] q t
  show ?thesis by blast
qed

text \<open>The scenario's save in the quiet environment.\<close>

lemma saveQuote_orderOne:
  "saveQuote quiet fresh orderOne False =
     (saved, Inr \<lparr>success = True, message = ''Quote saved successfully'',
                  quote_id = Some (JStr ''q1''), file_path = ''/dtf-quotes/Order__1_q1.html'',
                  download_url = Some ''https://www.dropbox.com/s/x/dtf-quotes/Order__1_q1.html?raw=1'',
                  metadata = orderOneMetadata\<rparr>)"
proof -
  have env: "quiet = quiet \<or> quiet = noShare" by simp
  have share: "createSharedLink quiet described ''/dtf-quotes/Order__1_q1.html'' (Some ''sl.token'')
     = (saved, Inr ''https://www.dropbox.com/s/x/dtf-quotes/Order__1_q1.html?raw=1'')"
    by (simp add: quiet_def world_defs orderOneMetadata_def run_defs lower_paths)
  from saveQuote_resolves
         [OF orderOne_stages(1) [OF env] generateFileName_orderOne orderOne_stages(2-4) [OF env],
          of False] share
  show ?thesis
    by (simp add: quotePath_def quoteMetadata_def object_def orderOne_def orderOneMetadata_def
          List.map_filter_def quiet_def documented_def tokened_def fresh_def)
qed

section \<open>Loading a saved quote\<close>

text \<open>
  C3: the program does not do what the claim says. \<^verbatim>\<open>saveQuote\<close> stores the metadata as
  the JSON text of an object; \<^verbatim>\<open>downloadFile\<close> resolves to \<^verbatim>\<open>response.data\<close>, which the HTTP
  client has parsed already; and line 156 gives this object to \<^verbatim>\<open>JSON.parse\<close>, which
  converts it to the string \<^verbatim>\<open>[object Object]\<close> and throws. So for every quote whose
  save has resolved, in every later state that holds the same files, loading it by the
  same identifier with format \<^verbatim>\<open>'json'\<close> raises, also when the token is obtained and the
  download is answered: the error is \<^verbatim>\<open>Failed to load quote: \<close> followed by the message of
  the \<^verbatim>\<open>SyntaxError\<close>, and no record is returned.
\<close>

theorem saveQuote_loadQuote_raises:
  assumes save: "saveQuote env w quoteData isUpdate = (w1, Inr r)"
    and same: "files w2 = files w1"
    and tok: "getValidToken env w2 = (w3, Inr token)"
    and ok: "fault env (length (trace w3))
               (Download token
                  (Some (JStr (metadataPath (templateString (numberToString env) (map_of quoteData ''id''))))))
             = None"
  shows "snd (loadQuote env w2 (templateString (numberToString env) (map_of quoteData ''id'')) ''json'')
           = Inl (Error (''Failed to load quote: '' @ syntaxError env ''[object Object]''))"
proof -
  let ?id = "templateString (numberToString env) (map_of quoteData ''id'')"
  from saveQuote_resolved [OF save] obtain token' fileName wa wb where
    meta: "uploadFile env wa (metadataPath ?id)
             (Json (quoteMetadata quoteData (quotePath fileName) (toISOString env (clock wa)))) token'
           = (wb, Inr ())" and
    w1: "w1 = fst (createSharedLink env wb (quotePath fileName) token')" and
    r: "metadata r = quoteMetadata quoteData (quotePath fileName) (toISOString env (clock wa))"
    by blast
  have "files w1 = files wb"
    using w1 createSharedLink_files [of env wb "quotePath fileName" token']
    by (cases "createSharedLink env wb (quotePath fileName) token'") simp
  with uploadFile_resolved [OF meta] r
  have stored: "find_file (files w1) (metadataPath ?id) = Some (Json (metadata r))"
    by (simp add: find_put_file)
  from getValidToken_remote [OF tok] same stored
  have "find_file (files w3) (metadataPath ?id) = Some (Json (metadata r))" by simp
  from downloadFile_found [OF ok this]
  have "snd (downloadFile env w3 (Some (JStr (metadataPath ?id))) token) = Inr (metadata r)"
    by (simp add: responseData_def)
  moreover from r obtain kvs where "metadata r = JObj kvs"
    by (simp add: quoteMetadata_def object_def)
  ultimately show ?thesis
    using tok
    by (cases "downloadFile env w3 (Some (JStr (metadataPath ?id))) token")
       (simp add: loadQuote_def await_def catch_def JSON_parse_def)
qed

text \<open>
  The scenario's quote: saved in the quiet environment from the initial state, then
  loaded from the state the save has left.
\<close>

theorem saveQuote_loadQuote_raises_witness:
  "saveQuote quiet fresh orderOne False =
     (saved, Inr \<lparr>success = True, message = ''Quote saved successfully'',
                  quote_id = Some (JStr ''q1''), file_path = ''/dtf-quotes/Order__1_q1.html'',
                  download_url = Some ''https://www.dropbox.com/s/x/dtf-quotes/Order__1_q1.html?raw=1'',
                  metadata = orderOneMetadata\<rparr>) \<and>
   find_file (files saved) ''/dtf-quotes/q1_metadata.json'' = Some (Json orderOneMetadata) \<and>
   getValidToken quiet saved = (saved, Inr (Some ''sl.token'')) \<and>
   snd (loadQuote quiet saved ''q1'' ''json'')
     = Inl (Error ''Failed to load quote: Unexpected token in JSON'')"
proof -
  have same: "files saved = files saved" by simp
  have tok: "getValidToken quiet saved = (saved, Inr (Some ''sl.token''))"
    by (simp add: quiet_def world_defs run_defs)
  have ok: "fault quiet (length (trace saved))
               (Download (Some ''sl.token'')
                  (Some (JStr (metadataPath (templateString (numberToString quiet) (map_of orderOne ''id''))))))
             = None"
    by (simp add: quiet_def)
  have id: "templateString (numberToString quiet) (map_of orderOne ''id'') = ''q1''"
    by (simp add: templateString_def orderOne_def)
  have stored: "find_file (files saved) ''/dtf-quotes/q1_metadata.json'' = Some (Json orderOneMetadata)"
    by (simp add: world_defs find_file_def lower_paths)
  have msg: "syntaxError quiet ''[object Object]'' = ''Unexpected token in JSON''"
    by (simp add: quiet_def)
  from saveQuote_loadQuote_raises [OF saveQuote_orderOne same tok ok, unfolded id msg]
       saveQuote_orderOne tok stored
  show ?thesis by simp
qed

section \<open>Properties of listing the quotes of a customer\<close>

text \<open>One turn of the loop: one request, the store untouched, at most one record added.\<close>

lemma loadMetadataFile_step:
  assumes "loadMetadataFile env w customerId token entry quotes = (w1, r)"
  shows "files w1 = files w \<and> length (trace w1) = Suc (length (trace w)) \<and>
         (case r of Inl e \<Rightarrow> quotes | Inr quotes' \<Rightarrow> quotes')
           = quotes @ (case fileRecord env (files w) customerId token (length (trace w)) entry of
                         None \<Rightarrow> [] | Some md \<Rightarrow> [md])"
  using assms
  by (auto simp: loadMetadataFile_def fileRecord_def await_def downloadFile_def issue_def
        split: option.splits sum.splits if_splits)

text \<open>The loop collects the records of its files, and leaves the store as it was.\<close>

lemma scanFiles_collects:
  "snd (scanFiles env w customerId token fs quotes)
     = quotes @ fileRecords env (files w) customerId token (length (trace w)) fs"
proof (induction fs arbitrary: w quotes)
  case Nil
  show ?case by simp
next
  case (Cons entry rest)
  obtain w1 r where step: "loadMetadataFile env w customerId token entry quotes = (w1, r)"
    by (cases "loadMetadataFile env w customerId token entry quotes")
  note one = loadMetadataFile_step [OF step]
  show ?case
  proof (cases r)
    case (Inl e)
    with step one Cons.IH [of w1 quotes] show ?thesis
      by (cases "fileRecord env (files w) customerId token (length (trace w)) entry") simp_all
  next
    case (Inr quotes')
    with step one Cons.IH [of w1 quotes'] show ?thesis
      by (cases "fileRecord env (files w) customerId token (length (trace w)) entry") simp_all
  qed
qed



text \<open>From here on the loop is evaluated through the lemmas above.\<close>

declare scanFiles.simps [simp del]

text \<open>The whole operation, in each of its three courses.\<close>

lemma loadCustomerQuotes_no_token:
  assumes "snd (getValidToken env w) = Inl e"
  shows "snd (loadCustomerQuotes env w customerId) = Inr []"
  using assms
  by (cases "getValidToken env w") (simp add: loadCustomerQuotes_def await_def catch_def)

lemma loadCustomerQuotes_no_listing:
  assumes "getValidToken env w = (w1, Inr token)"
    and "snd (list_folder env w1 ''/dtf-quotes'' token) = Inl e"
  shows "snd (loadCustomerQuotes env w customerId) = Inr []"
  using assms
  by (cases "list_folder env w1 ''/dtf-quotes'' token")
     (simp add: loadCustomerQuotes_def scanDropboxQuotes_def await_def catch_def)

lemma list_folder_resolved:
  assumes "list_folder env w ''/dtf-quotes'' token = (w1, Inr entries)"
  shows "files w1 = files w \<and> length (trace w1) = Suc (length (trace w)) \<and>
         entries = folder_entries (files w) ''/dtf-quotes''"
  using assms by (auto simp: list_folder_def issue_def split: option.splits)

lemma loadCustomerQuotes_listed:
  assumes tok: "getValidToken env w = (w1, Inr token)"
    and list: "snd (list_folder env w1 ''/dtf-quotes'' token) = Inr entries"
  shows "snd (loadCustomerQuotes env w customerId) =
           Inr (map (withLocaleDate env)
                  (sortQuotes env
                     (fileRecords env (files w1) customerId token (Suc (length (trace w1)))
                        (filter (\<lambda>entry. endsWith (fst entry) ''_metadata.json'') entries))))"
proof -
  let ?fs = "filter (\<lambda>entry. endsWith (fst entry) ''_metadata.json'') entries"
  from list obtain w2 where l: "list_folder env w1 ''/dtf-quotes'' token = (w2, Inr entries)"
    by (cases "list_folder env w1 ''/dtf-quotes'' token") simp
  note at = list_folder_resolved [OF l]
  obtain w3 found where run: "scanFiles env w2 customerId token ?fs [] = (w3, found)"
    by (cases "scanFiles env w2 customerId token ?fs []")
  with scanFiles_collects [of env w2 customerId token ?fs "[]"] at
  have "found = fileRecords env (files w1) customerId token (Suc (length (trace w1))) ?fs"
    by simp
  with l run have "snd (scanDropboxQuotes env w1 customerId token) =
      Inr (sortQuotes env (fileRecords env (files w1) customerId token (Suc (length (trace w1))) ?fs))"
    by (simp add: scanDropboxQuotes_def await_def catch_def)
  with tok show ?thesis
    by (cases "scanDropboxQuotes env w1 customerId token")
       (simp add: loadCustomerQuotes_def await_def catch_def)
qed





lemma token_three:
  "getValidToken dated three = (three, Inr (Some ''sl.old''))"
  "getValidToken encoded broken = (broken, Inr (Some ''sl.old''))"
  "getValidToken noList broken = (broken, Inr (Some ''sl.old''))"
  by (simp_all add: three_def broken_def cached_def fresh_def getValidToken_def
        refreshTokenIfNeeded_def needsRefresh_def truthy_def bufferTime_def await_def)

lemma records:
  "getProp recOld ''customer_id'' = Inr (Some (JStr ''A''))"
  "getProp recNew ''customer_id'' = Inr (Some (JStr ''A''))"
  "getProp recOther ''customer_id'' = Inr (Some (JStr ''B''))"
  "dateCreated encoded recOld = Date 1704067200000"
  "dateCreated encoded recNew = Date 1704240000000"
  "dateCreated dated recOld = Date 1704067200000"
  "dateCreated dated recOther = Date 1704153600000"
  "dateCreated dated recNew = Date 1704240000000"
  by (simp_all add: recOld_def recNew_def recOther_def getProp_def dateCreated_def dateOf_def
        new_Date_def encoded_def dated_def quiet_def)






text \<open>A metadata file as \<^verbatim>\<open>saveQuote\<close> writes it, the JSON text of an object, gives no record.\<close>

lemma fileRecords_objects:
  assumes "\<forall>entry \<in> set fs. \<exists>kvs. find_file st (snd entry) = Some (Json (JObj kvs))"
  shows "fileRecords env st customerId token k fs = []"
  using assms
  by (induction fs arbitrary: k)
     (auto simp: fileRecord_def responseData_def JSON_parse_def)

text \<open>
  C4: the program does not do what the claim says. Each listed metadata file is
  downloaded and what \<^verbatim>\<open>downloadFile\<close> resolves to is given to \<^verbatim>\<open>JSON.parse\<close> (line 957);
  for a file that holds the JSON text of an object, as every file written by \<^verbatim>\<open>saveQuote\<close>
  does, this is the object already, the parse throws and the file is skipped. So for
  every store in which every metadata file listed under \<^verbatim>\<open>/dtf-quotes\<close> holds a JSON
  object, \<^verbatim>\<open>loadCustomerQuotes\<close> resolves to the empty list, for every customer identifier.
\<close>

theorem loadCustomerQuotes_objects_empty:
  assumes "\<forall>entry \<in> set (folder_entries (files w) ''/dtf-quotes'').
             endsWith (fst entry) ''_metadata.json''
               \<longrightarrow> (\<exists>kvs. find_file (files w) (snd entry) = Some (Json (JObj kvs)))"
  shows "snd (loadCustomerQuotes env w customerId) = Inr []"
proof -
  obtain w1 r where tok: "getValidToken env w = (w1, r)"
    by (cases "getValidToken env w")
  show ?thesis
  proof (cases r)
    case (Inl e)
    with tok show ?thesis by (simp add: loadCustomerQuotes_no_token)
  next
    case (Inr token)
    note same = getValidToken_remote [OF tok]
    obtain w2 l where list: "list_folder env w1 ''/dtf-quotes'' token = (w2, l)"
      by (cases "list_folder env w1 ''/dtf-quotes'' token")
    show ?thesis
    proof (cases l)
      case (Inl e)
      with tok Inr list show ?thesis by (simp add: loadCustomerQuotes_no_listing)
    next
      case entries: (Inr entries)
      let ?fs = "filter (\<lambda>entry. endsWith (fst entry) ''_metadata.json'') entries"
      from list entries list_folder_resolved [of env w1 token w2 entries] same
      have "entries = folder_entries (files w) ''/dtf-quotes''" by simp
      with assms same
      have "\<forall>entry \<in> set ?fs. \<exists>kvs. find_file (files w1) (snd entry) = Some (Json (JObj kvs))"
        by simp
      then have "fileRecords env (files w1) customerId token (Suc (length (trace w1))) ?fs = []"
        by (rule fileRecords_objects)
      with loadCustomerQuotes_listed [of env w w1 token entries customerId] tok Inr list entries
      show ?thesis by (simp add: sortQuotes_def)
    qed
  qed
qed

text \<open>
  The store of the claim: exactly three metadata records, of customers \<^verbatim>\<open>A\<close>, \<^verbatim>\<open>A\<close> and
  \<^verbatim>\<open>B\<close>, created on three different days, stored as \<^verbatim>\<open>saveQuote\<close> stores metadata. With a
  valid token and no request rejected, the listing for \<^verbatim>\<open>A\<close> is empty.
\<close>

theorem loadCustomerQuotes_objects_empty_witness:
  "files three = [(''/dtf-quotes/a1_metadata.json'', Json recOld),
                  (''/dtf-quotes/b1_metadata.json'', Json recOther),
                  (''/dtf-quotes/a2_metadata.json'', Json recNew)] \<and>
   getProp recOld ''customer_id'' = Inr (Some (JStr ''A'')) \<and>
   getProp recNew ''customer_id'' = Inr (Some (JStr ''A'')) \<and>
   getProp recOther ''customer_id'' = Inr (Some (JStr ''B'')) \<and>
   dateCreated dated recOld = Date 1704067200000 \<and>
   dateCreated dated recOther = Date 1704153600000 \<and>
   dateCreated dated recNew = Date 1704240000000 \<and>
   getValidToken dated three = (three, Inr (Some ''sl.old'')) \<and>
   (\<forall>k r. fault dated k r = None) \<and>
   snd (loadCustomerQuotes dated three ''A'') = Inr []"
proof -
  have stored: "files three = [(''/dtf-quotes/a1_metadata.json'', Json recOld),
                  (''/dtf-quotes/b1_metadata.json'', Json recOther),
                  (''/dtf-quotes/a2_metadata.json'', Json recNew)]"
    by (simp add: three_def cached_def fresh_def)
  have quiet: "\<forall>k r. fault dated k r = None" by (simp add: dated_def quiet_def)
  have "\<forall>entry \<in> set (folder_entries (files three) ''/dtf-quotes'').
             endsWith (fst entry) ''_metadata.json''
               \<longrightarrow> (\<exists>kvs. find_file (files three) (snd entry) = Some (Json (JObj kvs)))"
    by (simp add: three_def cached_def fresh_def folder_entries_def basename_def dirname_def
          find_file_def endsWith_def lower_def lower_char_def recOld_def recOther_def recNew_def)
  from loadCustomerQuotes_objects_empty [OF this, of dated "''A''"]
       stored records(1-3) records(6-8) token_three(1) quiet
  show ?thesis by simp
qed

end
